theory Spec2Isabelle
  imports Complex_Main
begin

section \<open>Decimal values and the static catalogues (src/utils/constants.js)\<close>

text \<open>
  Modelled from the spec: the \<^verbatim>\<open>Decimal\<close> type. Every game quantity is a \<^verbatim>\<open>Decimal\<close> of the
  decimal.js library, which the page loads from outside the repository; the spec describes
  it as an opaque arbitrary-precision signed decimal value whose operations work at a
  configured precision. A Decimal is a real number here. \<^verbatim>\<open>lt\<close>, \<^verbatim>\<open>lte\<close>, \<^verbatim>\<open>gt\<close>, \<^verbatim>\<open>gte\<close> are
  the order and \<^verbatim>\<open>floor()\<close> is the integer floor read back as a Decimal.
\<close>

type_synonym decimal = real

text \<open>
  \<^verbatim>\<open>Decimal.set({ precision: 100, rounding: 4 })\<close> in src/main.js: the result of an
  operation is rounded to 100 significant digits, to the nearest such value and away from
  zero at a tie. \<open>toPrecision\<close> is that rounding: for \<open>x\<close> with
  \<open>10 ^ e \<le> \<bar>x\<bar> < 10 ^ (e + 1)\<close> it keeps \<open>q = 99 - e\<close> decimals. \<open>Decimal_add\<close>,
  \<open>Decimal_sub\<close>, \<open>Decimal_mul\<close> and \<open>Decimal_pow\<close> (\<^verbatim>\<open>pow\<close> with a level as the exponent) are
  the exact operations followed by it.

  The cost functions of the game state go through these operations: a single cost has
  more than 100 digits from level 49 on. The fractional power \<^verbatim>\<open>pow(0.5)\<close> in the prestige
  gain is left to the library: the functions that call it take it as the argument
  \<open>powHalf\<close>. Elsewhere (production, consumption, statistics, the sub-engines) \<^verbatim>\<open>add\<close>,
  \<^verbatim>\<open>sub\<close>, \<^verbatim>\<open>mul\<close> and \<^verbatim>\<open>div\<close> are the field operations, which is what the library computes
  as long as the result has at most 100 significant digits. A JavaScript number that is
  handed to a Decimal operation (\<^verbatim>\<open>growth\<close>, \<^verbatim>\<open>efficiency\<close>, \<^verbatim>\<open>deltaTime\<close>) is taken at its
  decimal value, and the arithmetic on JavaScript numbers (\<^verbatim>\<open>level * 0.1\<close>,
  \<^verbatim>\<open>averageEfficiency\<close>, \<^verbatim>\<open>effectiveness\<close>, \<^verbatim>\<open>totalPlayTime\<close>) is exact as well.

  Levels, counters and purchase amounts are natural numbers: a level starts at 0 and
  changes only by adding an amount or by a reset to 0. The descriptive strings of the
  catalogues (name, description, effect) play no part in the logic and are left out.
\<close>

definition toPrecision :: "decimal \<Rightarrow> decimal" where
  "toPrecision x =
     (if x = 0 then 0
      else (let q = 99 - \<lfloor>log 10 \<bar>x\<bar>\<rfloor>
            in sgn x * of_int \<lfloor>\<bar>x\<bar> * 10 powi q + 1 / 2\<rfloor> / 10 powi q))"

definition Decimal_add :: "decimal \<Rightarrow> decimal \<Rightarrow> decimal" where
  "Decimal_add x y = toPrecision (x + y)"

definition Decimal_sub :: "decimal \<Rightarrow> decimal \<Rightarrow> decimal" where
  "Decimal_sub x y = toPrecision (x - y)"

definition Decimal_mul :: "decimal \<Rightarrow> decimal \<Rightarrow> decimal" where
  "Decimal_mul x y = toPrecision (x * y)"

definition Decimal_pow :: "decimal \<Rightarrow> nat \<Rightarrow> decimal" where
  "Decimal_pow x n = toPrecision (x ^ n)"

text \<open>A \<^verbatim>\<open>TypeError\<close> is what calling a method on \<^verbatim>\<open>undefined\<close> raises; the model returns
  it as a value.\<close>

datatype error = TypeError

datatype resource = Tokens | AstNodes | GeneratedCode | OptimizedCode | CompilerPoints

datatype upgradeType = manual | generator | converter

record upgradeData =
  baseCost :: decimal
  growth :: decimal
  baseOutput :: decimal
  utype :: upgradeType
  resource :: "resource option"
  costResource :: "resource option"
  unlockThreshold :: "decimal option"

definition UPGRADE_DATA :: "(string \<times> upgradeData) list" where
  "UPGRADE_DATA =
    [(''token-speed'',
        \<lparr>baseCost = 25, growth = 1.25, baseOutput = 0.1, utype = manual,
         resource = None, costResource = None, unlockThreshold = None\<rparr>),
     (''auto-tokenizer-1'',
        \<lparr>baseCost = 50, growth = 1.15, baseOutput = 1, utype = generator,
         resource = Some Tokens, costResource = None, unlockThreshold = None\<rparr>),
     (''auto-scanner-2'',
        \<lparr>baseCost = 500, growth = 1.18, baseOutput = 5, utype = generator,
         resource = Some Tokens, costResource = None, unlockThreshold = Some 250\<rparr>),
     (''parallel-lexer-3'',
        \<lparr>baseCost = 8000, growth = 1.22, baseOutput = 25, utype = generator,
         resource = Some Tokens, costResource = None, unlockThreshold = Some 4000\<rparr>),
     (''auto-parser-1'',
        \<lparr>baseCost = 1000, growth = 1.20, baseOutput = 0.5, utype = converter,
         resource = Some AstNodes, costResource = Some Tokens, unlockThreshold = Some 500\<rparr>)]"

definition STAGE3_UPGRADES :: "(string \<times> upgradeData) list" where
  "STAGE3_UPGRADES =
    [(''basicCodeGen'',
        \<lparr>baseCost = 100, growth = 1.2, baseOutput = 0.1, utype = converter,
         resource = Some GeneratedCode, costResource = Some AstNodes,
         unlockThreshold = Some 1000\<rparr>),
     (''llvmCodeGen'',
        \<lparr>baseCost = 1000, growth = 1.25, baseOutput = 0.15, utype = converter,
         resource = Some GeneratedCode, costResource = Some AstNodes,
         unlockThreshold = Some 5000\<rparr>),
     (''jitCompiler'',
        \<lparr>baseCost = 10000, growth = 1.3, baseOutput = 0.2, utype = converter,
         resource = Some GeneratedCode, costResource = Some AstNodes,
         unlockThreshold = Some 50000\<rparr>)]"

text \<open>
  \<^verbatim>\<open>PRESTIGE_UPGRADES\<close> is a module-level table whose \<^verbatim>\<open>level\<close>, \<^verbatim>\<open>cost\<close> and \<^verbatim>\<open>unlocked\<close>
  entries are overwritten by the storage manager, so the functions that read or write it
  take the current table as an argument.
\<close>

record prestigeUpgrade =
  pu_baseCost :: decimal
  pu_cost :: decimal
  pu_level :: nat
  pu_requiresPrestige :: nat
  pu_unlocked :: bool

definition PRESTIGE_UPGRADES :: "(string \<times> prestigeUpgrade) list" where
  "PRESTIGE_UPGRADES =
    [(''quantumTokenizer'',
        \<lparr>pu_baseCost = 10, pu_cost = 10, pu_level = 0, pu_requiresPrestige = 1,
         pu_unlocked = False\<rparr>),
     (''parallelCompiler'',
        \<lparr>pu_baseCost = 100, pu_cost = 100, pu_level = 0, pu_requiresPrestige = 3,
         pu_unlocked = False\<rparr>),
     (''aiOptimizer'',
        \<lparr>pu_baseCost = 1000, pu_cost = 1000, pu_level = 0, pu_requiresPrestige = 5,
         pu_unlocked = False\<rparr>)]"

text \<open>
  The optimisation techniques, the deployment platforms and the code-generation templates
  are closed sets of keys: the objects indexed by them are created with exactly these keys
  and never gain or lose one, so they are functions on an enumeration.
\<close>

datatype tech = deadCodeElimination | loopOptimization | functionInlining | registerAllocation

record techData =
  tech_maxLevel :: nat
  tech_baseCost :: decimal
  tech_growth :: decimal
  tech_efficiency :: decimal

fun OPTIMIZATION_TECHS :: "tech \<Rightarrow> techData" where
  "OPTIMIZATION_TECHS deadCodeElimination =
     \<lparr>tech_maxLevel = 10, tech_baseCost = 50, tech_growth = 1.6, tech_efficiency = 0.1\<rparr>"
| "OPTIMIZATION_TECHS loopOptimization =
     \<lparr>tech_maxLevel = 8, tech_baseCost = 200, tech_growth = 1.8, tech_efficiency = 0.15\<rparr>"
| "OPTIMIZATION_TECHS functionInlining =
     \<lparr>tech_maxLevel = 5, tech_baseCost = 500, tech_growth = 2.0, tech_efficiency = 0.2\<rparr>"
| "OPTIMIZATION_TECHS registerAllocation =
     \<lparr>tech_maxLevel = 12, tech_baseCost = 100, tech_growth = 1.5, tech_efficiency = 0.05\<rparr>"

definition techKeys :: "tech list" where
  "techKeys = [deadCodeElimination, loopOptimization, functionInlining, registerAllocation]"

datatype platform = development | serverCluster | edgeComputing | quantumProcessor

record platformData =
  multiplier :: decimal
  platform_unlocked :: bool
  platform_unlockThreshold :: "decimal option"
  platform_requiresPrestige :: "nat option"

fun DEPLOYMENT_PLATFORMS :: "platform \<Rightarrow> platformData" where
  "DEPLOYMENT_PLATFORMS development =
     \<lparr>multiplier = 1.0, platform_unlocked = True, platform_unlockThreshold = None,
      platform_requiresPrestige = None\<rparr>"
| "DEPLOYMENT_PLATFORMS serverCluster =
     \<lparr>multiplier = 2.5, platform_unlocked = False, platform_unlockThreshold = Some 10000,
      platform_requiresPrestige = None\<rparr>"
| "DEPLOYMENT_PLATFORMS edgeComputing =
     \<lparr>multiplier = 5.0, platform_unlocked = False, platform_unlockThreshold = Some 100000,
      platform_requiresPrestige = None\<rparr>"
| "DEPLOYMENT_PLATFORMS quantumProcessor =
     \<lparr>multiplier = 10.0, platform_unlocked = False, platform_unlockThreshold = Some 1000000,
      platform_requiresPrestige = Some 3\<rparr>"

definition platformKeys :: "platform list" where
  "platformKeys = [development, serverCluster, edgeComputing, quantumProcessor]"

section \<open>The code generator (src/modules/codeGenerator.js)\<close>

datatype template = basic | llvm | jit

record templateData =
  efficiency :: decimal
  template_unlockThreshold :: "decimal option"

fun templates :: "template \<Rightarrow> templateData" where
  "templates basic = \<lparr>efficiency = 0.1, template_unlockThreshold = None\<rparr>"
| "templates llvm = \<lparr>efficiency = 0.15, template_unlockThreshold = Some 5000\<rparr>"
| "templates jit = \<lparr>efficiency = 0.2, template_unlockThreshold = Some 50000\<rparr>"

record generationStats =
  totalGenerated :: decimal
  sessionsCount :: nat
  averageEfficiency :: real

record CodeGenerator =
  currentTemplate :: template
  optimizationLevel :: nat
  generationStats :: generationStats

definition CodeGenerator_new :: CodeGenerator where
  "CodeGenerator_new =
     \<lparr>currentTemplate = basic, optimizationLevel = 0,
      generationStats = \<lparr>totalGenerated = 0, sessionsCount = 0, averageEfficiency = 0\<rparr>\<rparr>"

definition updateAverageEfficiency :: "CodeGenerator \<Rightarrow> CodeGenerator" where
  "updateAverageEfficiency g =
     (let gs = generationStats g in
      if sessionsCount gs > 0 then
        (let baseEfficiency = efficiency (templates (currentTemplate g));
             optimizationBonus = real (optimizationLevel g) * 0.1
         in g\<lparr>generationStats := gs\<lparr>averageEfficiency :=
               (averageEfficiency gs * (real (sessionsCount gs) - 1)
                  + (baseEfficiency + optimizationBonus)) / real (sessionsCount gs)\<rparr>\<rparr>)
      else g)"

text \<open>
  \<^verbatim>\<open>generateCode\<close> returns the generated amount and updates the generator's statistics.
  The template lookup cannot fail, \<^verbatim>\<open>currentTemplate\<close> being one of the three keys.
\<close>

definition generateCode :: "CodeGenerator \<Rightarrow> decimal \<Rightarrow> decimal \<times> CodeGenerator" where
  "generateCode g astNodes =
     (if astNodes \<le> 0 then (0, g)
      else
        (let template = templates (currentTemplate g);
             baseGeneration = astNodes * efficiency template;
             optimizationBonus = 1 + real (optimizationLevel g) * 0.1;
             experienceBonus = 1 + totalGenerated (generationStats g) / 10000 * 0.05;
             finalGeneration = baseGeneration * optimizationBonus * experienceBonus;
             gs = generationStats g;
             g1 = g\<lparr>generationStats := gs\<lparr>totalGenerated := totalGenerated gs + finalGeneration,
                                            sessionsCount := sessionsCount gs + 1\<rparr>\<rparr>
         in (finalGeneration, updateAverageEfficiency g1)))"

definition resetStats :: "CodeGenerator \<Rightarrow> CodeGenerator" where
  "resetStats g =
     g\<lparr>generationStats := \<lparr>totalGenerated = 0, sessionsCount = 0, averageEfficiency = 0\<rparr>,
       currentTemplate := basic, optimizationLevel := 0\<rparr>"

section \<open>The code optimizer (src/modules/codeOptimizer.js)\<close>

text \<open>\<^verbatim>\<open>Date.now()\<close> is read where records are time-stamped; the model takes it as the
  argument \<open>now\<close>.\<close>

record techState =
  opt_level :: nat
  opt_cost :: decimal
  totalApplications :: nat
  effectiveness :: real

record optimizationRecord =
  or_timestamp :: nat
  or_input :: decimal
  or_output :: decimal
  improvement :: decimal

record CodeOptimizer =
  optimizations :: "tech \<Rightarrow> techState"
  optimizationHistory :: "optimizationRecord list"
  totalOptimizationScore :: decimal

definition CodeOptimizer_new :: CodeOptimizer where
  "CodeOptimizer_new =
     \<lparr>optimizations = (\<lambda>key. \<lparr>opt_level = 0, opt_cost = tech_baseCost (OPTIMIZATION_TECHS key),
                                totalApplications = 0, effectiveness = 0\<rparr>),
      optimizationHistory = [], totalOptimizationScore = 0\<rparr>"

definition getOptimizationMultiplier :: "CodeOptimizer \<Rightarrow> decimal" where
  "getOptimizationMultiplier opt =
     fold (\<lambda>key totalMultiplier.
             (let optimization = optimizations opt key in
              if opt_level optimization > 0
              then totalMultiplier
                     * (1 + tech_efficiency (OPTIMIZATION_TECHS key) * real (opt_level optimization))
              else totalMultiplier))
          techKeys 1"

definition recordOptimization :: "nat \<Rightarrow> CodeOptimizer \<Rightarrow> decimal \<Rightarrow> decimal \<Rightarrow> CodeOptimizer" where
  "recordOptimization now opt inp out =
     (let pushed = optimizationHistory opt
                     @ [\<lparr>or_timestamp = now, or_input = inp, or_output = out,
                          improvement = out / inp\<rparr>];
          kept = (if length pushed > 100 then tl pushed else pushed)
      in opt\<lparr>optimizationHistory := kept,
             totalOptimizationScore := totalOptimizationScore opt + (out - inp)\<rparr>)"

definition updateTechStats :: "CodeOptimizer \<Rightarrow> CodeOptimizer" where
  "updateTechStats opt =
     opt\<lparr>optimizations := (\<lambda>key.
        (let optimization = optimizations opt key in
         if opt_level optimization > 0
         then optimization\<lparr>totalApplications := totalApplications optimization + 1,
                effectiveness :=
                  tech_efficiency (OPTIMIZATION_TECHS key) * real (opt_level optimization)\<rparr>
         else optimization))\<rparr>"

definition optimize :: "nat \<Rightarrow> CodeOptimizer \<Rightarrow> decimal \<Rightarrow> decimal \<times> CodeOptimizer" where
  "optimize now opt generatedCode =
     (if generatedCode \<le> 0 then (0, opt)
      else
        (let optimizedAmount = generatedCode * getOptimizationMultiplier opt
         in (optimizedAmount,
             updateTechStats (recordOptimization now opt generatedCode optimizedAmount))))"

text \<open>\<^verbatim>\<open>Math.floor(level * 0.1)\<close> on a level is the integer quotient by ten.\<close>

definition resetOptimizer :: "CodeOptimizer \<Rightarrow> bool \<Rightarrow> CodeOptimizer" where
  "resetOptimizer opt keepSomeProgress =
     (let opt1 = opt\<lparr>optimizations := (\<lambda>key.
            \<lparr>opt_level = (if keepSomeProgress then opt_level (optimizations opt key) div 10 else 0),
             opt_cost = tech_baseCost (OPTIMIZATION_TECHS key),
             totalApplications =
               (if keepSomeProgress then totalApplications (optimizations opt key) else 0),
             effectiveness = 0\<rparr>)\<rparr>
      in if \<not> keepSomeProgress
         then opt1\<lparr>optimizationHistory := [], totalOptimizationScore := 0\<rparr>
         else opt1)"

section \<open>The performance analyzer (src/modules/performanceAnalyzer.js)\<close>

record detailedMetrics =
  executionSpeed :: decimal
  memoryEfficiency :: decimal
  codeQuality :: decimal
  reliability :: decimal
  scalability :: decimal

record deploymentStat =
  totalDeployments :: nat
  cumulativeScore :: decimal
  bestScore :: decimal
  averageScore :: decimal

record performanceRecord =
  pr_timestamp :: nat
  score :: decimal
  pr_platform :: platform
  metrics :: detailedMetrics

record PerformanceAnalyzer =
  currentPlatform :: platform
  performanceHistory :: "performanceRecord list"
  deploymentStats :: "platform \<Rightarrow> deploymentStat"
  detailedMetrics :: detailedMetrics

definition initialMetrics :: detailedMetrics where
  "initialMetrics =
     \<lparr>executionSpeed = 1, memoryEfficiency = 1, codeQuality = 1, reliability = 1,
      scalability = 1\<rparr>"

definition initialDeploymentStat :: deploymentStat where
  "initialDeploymentStat =
     \<lparr>totalDeployments = 0, cumulativeScore = 0, bestScore = 0, averageScore = 0\<rparr>"

definition PerformanceAnalyzer_new :: PerformanceAnalyzer where
  "PerformanceAnalyzer_new =
     \<lparr>currentPlatform = development, performanceHistory = [],
      deploymentStats = (\<lambda>platform. initialDeploymentStat),
      detailedMetrics = initialMetrics\<rparr>"

definition getExperienceBonus :: "PerformanceAnalyzer \<Rightarrow> decimal" where
  "getExperienceBonus a =
     1 + real (fold (\<lambda>p sum. sum + totalDeployments (deploymentStats a p)) platformKeys 0) * 0.01"

definition updateDetailedMetrics :: "PerformanceAnalyzer \<Rightarrow> decimal \<Rightarrow> PerformanceAnalyzer" where
  "updateDetailedMetrics a optimizedCode =
     (let platformFactor = multiplier (DEPLOYMENT_PLATFORMS (currentPlatform a)) in
      a\<lparr>detailedMetrics :=
          \<lparr>executionSpeed = (1 + optimizedCode / 1000 * 0.1) * platformFactor,
           memoryEfficiency = 1 + optimizedCode / 2000 * 0.15,
           codeQuality = 1 + optimizedCode / 1500 * 0.12,
           reliability = 0.8 + optimizedCode / 3000 * 0.2 + platformFactor * 0.1,
           scalability = 0.9 + platformFactor * 0.2 + optimizedCode / 5000 * 0.1\<rparr>\<rparr>)"

definition recordPerformance :: "nat \<Rightarrow> PerformanceAnalyzer \<Rightarrow> decimal \<Rightarrow> PerformanceAnalyzer" where
  "recordPerformance now a sc =
     (let pushed = performanceHistory a
                     @ [\<lparr>pr_timestamp = now, score = sc, pr_platform = currentPlatform a,
                          metrics = detailedMetrics a\<rparr>]
      in a\<lparr>performanceHistory := (if length pushed > 200 then tl pushed else pushed)\<rparr>)"

definition updateDeploymentStats :: "PerformanceAnalyzer \<Rightarrow> decimal \<Rightarrow> PerformanceAnalyzer" where
  "updateDeploymentStats a sc =
     (let stats0 = deploymentStats a (currentPlatform a);
          n = totalDeployments stats0 + 1;
          cumulative = cumulativeScore stats0 + sc;
          best = (if sc > bestScore stats0 then sc else bestScore stats0)
      in a\<lparr>deploymentStats := (deploymentStats a)(currentPlatform a :=
             \<lparr>totalDeployments = n, cumulativeScore = cumulative, bestScore = best,
              averageScore = cumulative / real n\<rparr>)\<rparr>)"

definition analyzeCode :: "nat \<Rightarrow> PerformanceAnalyzer \<Rightarrow> decimal \<Rightarrow> decimal \<times> PerformanceAnalyzer" where
  "analyzeCode now a optimizedCode =
     (if optimizedCode \<le> 0 then (0, a)
      else
        (let baseScore = optimizedCode * 0.1;
             platformMultiplier = multiplier (DEPLOYMENT_PLATFORMS (currentPlatform a));
             experienceBonus = getExperienceBonus a;
             finalScore = baseScore * platformMultiplier * experienceBonus
         in (finalScore,
             updateDeploymentStats
               (recordPerformance now (updateDetailedMetrics a optimizedCode) finalScore)
               finalScore)))"

definition resetAnalyzer :: "PerformanceAnalyzer \<Rightarrow> bool \<Rightarrow> PerformanceAnalyzer" where
  "resetAnalyzer a keepHistory =
     (let a1 = a\<lparr>currentPlatform := development\<rparr>;
          a2 = (if \<not> keepHistory
                then a1\<lparr>performanceHistory := [],
                        deploymentStats := (\<lambda>platform. initialDeploymentStat)\<rparr>
                else a1)
      in a2\<lparr>detailedMetrics := initialMetrics\<rparr>)"

section \<open>The game state (src/core/gameState.js)\<close>

record prestigeState =
  level :: nat
  totalResets :: nat

record stage3Optimization =
  s3_level :: nat
  s3_cost :: decimal

record stage3State =
  unlocked :: bool
  stage3_optimizations :: "tech \<rightharpoonup> stage3Optimization"
  currentDeployment :: string
  performanceScore :: decimal

record gameStats =
  totalTokensGenerated :: decimal
  totalNodesBuilt :: decimal
  totalCodeGenerated :: decimal
  totalPlayTime :: real
  clickCount :: nat
  upgradesPurchased :: nat

record gameState =
  resources :: "resource \<Rightarrow> decimal"
  upgrades :: "string \<rightharpoonup> nat"
  prestige :: prestigeState
  stage3 :: stage3State
  buyAmount :: nat
  devMode :: bool
  startTime :: nat
  lastSaveTime :: nat
  stats :: gameStats
  codeGenerator :: CodeGenerator
  codeOptimizer :: CodeOptimizer
  performanceAnalyzer :: PerformanceAnalyzer

text \<open>\<^verbatim>\<open>reset()\<close> rebuilds the plain fields and leaves the three sub-engines alone; the
  constructor calls it and then creates the sub-engines. In \<open>GameState_new\<close> the record
  that \<open>reset\<close> is applied to holds the new sub-engines, and every other field of it is
  overwritten by \<open>reset\<close>. Both readings of \<^verbatim>\<open>Date.now()\<close> in \<^verbatim>\<open>reset()\<close> are the
  argument \<open>now\<close>.\<close>

definition reset :: "nat \<Rightarrow> gameState \<Rightarrow> gameState" where
  "reset now st =
     st\<lparr>resources := (\<lambda>r. 0),
        upgrades := map_of (map (\<lambda>(key, d). (key, 0)) UPGRADE_DATA),
        prestige := \<lparr>level = 0, totalResets = 0\<rparr>,
        stage3 := \<lparr>unlocked = False, stage3_optimizations = Map.empty,
                   currentDeployment = ''development'', performanceScore = 0\<rparr>,
        buyAmount := 1, devMode := False, startTime := now, lastSaveTime := now,
        stats := \<lparr>totalTokensGenerated = 0, totalNodesBuilt = 0, totalCodeGenerated = 0,
                  totalPlayTime = 0, clickCount = 0, upgradesPurchased = 0\<rparr>\<rparr>"

definition GameState_new :: "nat \<Rightarrow> gameState" where
  "GameState_new now =
     reset now
       \<lparr>resources = (\<lambda>r. 0), upgrades = Map.empty,
        prestige = \<lparr>level = 0, totalResets = 0\<rparr>,
        stage3 = \<lparr>unlocked = False, stage3_optimizations = Map.empty,
                  currentDeployment = [], performanceScore = 0\<rparr>,
        buyAmount = 0, devMode = False, startTime = 0, lastSaveTime = 0,
        stats = \<lparr>totalTokensGenerated = 0, totalNodesBuilt = 0, totalCodeGenerated = 0,
                 totalPlayTime = 0, clickCount = 0, upgradesPurchased = 0\<rparr>,
        codeGenerator = CodeGenerator_new, codeOptimizer = CodeOptimizer_new,
        performanceAnalyzer = PerformanceAnalyzer_new\<rparr>"

text \<open>
  \<^verbatim>\<open>UPGRADE_DATA[key] || STAGE3_UPGRADES[key]\<close>. The catalogues are plain objects, so an
  index with the name of a property of \<^verbatim>\<open>Object.prototype\<close> finds the inherited value, a
  function or the prototype itself: it is truthy and has none of the fields of a catalogue
  entry. No key of the catalogues is such a name.
\<close>

definition objectPrototypeKeys :: "string list" where
  "objectPrototypeKeys =
     [''constructor'', ''hasOwnProperty'', ''isPrototypeOf'', ''propertyIsEnumerable'',
      ''toLocaleString'', ''toString'', ''valueOf'', ''__proto__'', ''__defineGetter__'',
      ''__defineSetter__'', ''__lookupGetter__'', ''__lookupSetter__'']"

datatype lookup = Absent | Inherited | Entry upgradeData

definition lookupUpgrade :: "string \<Rightarrow> lookup" where
  "lookupUpgrade upgradeKey =
     (case map_of UPGRADE_DATA upgradeKey of
        Some d \<Rightarrow> Entry d
      | None \<Rightarrow>
          if List.member objectPrototypeKeys upgradeKey then Inherited
          else (case map_of STAGE3_UPGRADES upgradeKey of
                  Some d \<Rightarrow> Entry d
                | None \<Rightarrow> Absent))"

text \<open>\<^verbatim>\<open>this.upgrades[key] || 0\<close>, for a key that is not such an inherited name: the own
  entries of \<^verbatim>\<open>this.upgrades\<close> are numbers.\<close>

definition levelOf :: "gameState \<Rightarrow> string \<Rightarrow> nat" where
  "levelOf st upgradeKey = (case upgrades st upgradeKey of Some l \<Rightarrow> l | None \<Rightarrow> 0)"

text \<open>\<^verbatim>\<open>costResource || 'tokens'\<close>.\<close>

definition costResourceOf :: "upgradeData \<Rightarrow> resource" where
  "costResourceOf d = (case costResource d of Some r \<Rightarrow> r | None \<Rightarrow> Tokens)"

definition getUpgradeCost :: "gameState \<Rightarrow> string \<Rightarrow> error + decimal" where
  "getUpgradeCost st upgradeKey =
     (case lookupUpgrade upgradeKey of
        Absent \<Rightarrow> Inr 0
      | Inherited \<Rightarrow> Inl TypeError
      | Entry d \<Rightarrow>
          Inr (Decimal_mul (baseCost d) (Decimal_pow (growth d) (levelOf st upgradeKey))))"

text \<open>The summation loop \<^verbatim>\<open>for (let i = 0; i < amount; i++)\<close>, written twice in the source
  (in \<^verbatim>\<open>canBuyUpgrade\<close> and in \<^verbatim>\<open>buyUpgrade\<close>) with the same body:
  \<^verbatim>\<open>totalCost = totalCost.add(baseCost.mul(new Decimal(growth).pow(currentLevel + i)))\<close>.\<close>

definition totalCost :: "upgradeData \<Rightarrow> nat \<Rightarrow> nat \<Rightarrow> decimal" where
  "totalCost d currentLevel amount =
     fold (\<lambda>i total.
             Decimal_add total (Decimal_mul (baseCost d) (Decimal_pow (growth d) (currentLevel + i))))
          [0..<amount] 0"

text \<open>
  With an inherited value for \<^verbatim>\<open>upgradeData\<close> there is no \<^verbatim>\<open>unlockThreshold\<close>, the loop
  raises at \<^verbatim>\<open>upgradeData.baseCost.mul\<close> in its first round, and with no round (amount 0)
  the check compares the tokens with a total of 0.
\<close>

definition canBuyUpgrade :: "gameState \<Rightarrow> string \<Rightarrow> nat \<Rightarrow> error + bool" where
  "canBuyUpgrade st upgradeKey amount =
     (case lookupUpgrade upgradeKey of
        Absent \<Rightarrow> Inr False
      | Inherited \<Rightarrow> if amount = 0 then Inr (resources st Tokens \<ge> 0) else Inl TypeError
      | Entry d \<Rightarrow>
          (case unlockThreshold d of
             Some threshold \<Rightarrow>
               if resources st (costResourceOf d) < threshold then Inr False
               else Inr (resources st (costResourceOf d)
                           \<ge> totalCost d (levelOf st upgradeKey) amount)
           | None \<Rightarrow>
               Inr (resources st (costResourceOf d)
                      \<ge> totalCost d (levelOf st upgradeKey) amount)))"

text \<open>
  \<^verbatim>\<open>buyUpgrade\<close> returns whether it bought, and the state after the call; an exception of
  the check passes through. The third component is for the one call that stores something
  else than a number as a level: with an inherited name and amount 0 the source returns
  true after storing, under that name, the text of the inherited function followed by the
  amount (an assignment to \<^verbatim>\<open>__proto__\<close> stores nothing). The level map of the model holds
  numbers, so the name is returned beside the state. After a passed check the lookup
  cannot be \<open>Absent\<close>.
\<close>

definition buyUpgrade ::
  "gameState \<Rightarrow> string \<Rightarrow> nat \<Rightarrow> error + (bool \<times> gameState \<times> string option)" where
  "buyUpgrade st upgradeKey amount =
     (case canBuyUpgrade st upgradeKey amount of
        Inl e \<Rightarrow> Inl e
      | Inr False \<Rightarrow> Inr (False, st, None)
      | Inr True \<Rightarrow>
          (case lookupUpgrade upgradeKey of
             Absent \<Rightarrow> Inr (False, st, None)
           | Inherited \<Rightarrow>
               Inr (True,
                    st\<lparr>resources := (resources st)
                          (Tokens := Decimal_sub (resources st Tokens) 0),
                       stats := (stats st)\<lparr>upgradesPurchased :=
                                  upgradesPurchased (stats st) + amount\<rparr>\<rparr>,
                    if upgradeKey = ''__proto__'' then None else Some upgradeKey)
           | Entry d \<Rightarrow>
               (let cost = totalCost d (levelOf st upgradeKey) amount;
                    cr = costResourceOf d
                in Inr (True,
                        st\<lparr>resources := (resources st)(cr := Decimal_sub (resources st cr) cost),
                           upgrades := (upgrades st)(upgradeKey \<mapsto> levelOf st upgradeKey + amount),
                           stats := (stats st)\<lparr>upgradesPurchased :=
                                      upgradesPurchased (stats st) + amount\<rparr>\<rparr>,
                        None))))"

text \<open>\<^verbatim>\<open>totalResources.div(1000).pow(0.5).floor()\<close>: the argument \<open>powHalf\<close> is the library's
  \<^verbatim>\<open>pow(0.5)\<close>.\<close>

definition calculatePrestigeGain :: "(decimal \<Rightarrow> decimal) \<Rightarrow> gameState \<Rightarrow> decimal" where
  "calculatePrestigeGain powHalf st =
     (let totalResources =
            resources st Tokens + resources st AstNodes * 10
              + resources st GeneratedCode * 100 + resources st OptimizedCode * 1000
      in if totalResources < 1000 then 0
         else of_int \<lfloor>powHalf (totalResources / 1000)\<rfloor>)"

definition doPrestige :: "(decimal \<Rightarrow> decimal) \<Rightarrow> gameState \<Rightarrow> bool \<times> gameState" where
  "doPrestige powHalf st =
     (let gain = calculatePrestigeGain powHalf st in
      if gain \<le> 0 then (False, st)
      else
        (True,
         st\<lparr>resources := (resources st)
               (CompilerPoints := resources st CompilerPoints + gain,
                Tokens := 0, AstNodes := 0, GeneratedCode := 0, OptimizedCode := 0),
            prestige := \<lparr>level = level (prestige st) + 1,
                         totalResets = totalResets (prestige st) + 1\<rparr>,
            upgrades := (\<lambda>key. case upgrades st key of Some l \<Rightarrow> Some 0 | None \<Rightarrow> None),
            codeGenerator := resetStats (codeGenerator st),
            codeOptimizer := resetOptimizer (codeOptimizer st) True,
            performanceAnalyzer := resetAnalyzer (performanceAnalyzer st) False\<rparr>))"



section \<open>Production and the game loop (src/core/gameState.js, src/core/game.js)\<close>

text \<open>
  A catalogue entry is a plain object, and the loops below read \<^verbatim>\<open>resource\<close> and
  \<^verbatim>\<open>costResource\<close> from it without a check. Calling a method on the \<^verbatim>\<open>undefined\<close> that a
  missing key gives raises a \<^verbatim>\<open>TypeError\<close>, returned as a value. The
  \<^verbatim>\<open>production\<close> object has the four keys \<^verbatim>\<open>tokens\<close>, \<^verbatim>\<open>astNodes\<close>, \<^verbatim>\<open>generatedCode\<close>,
  \<^verbatim>\<open>optimizedCode\<close>; its entry at \<open>CompilerPoints\<close> is never written and never read as
  positive.
\<close>

type_synonym production = "resource \<Rightarrow> decimal"

fun forEach :: "('a \<Rightarrow> 's \<Rightarrow> error + 's) \<Rightarrow> 'a list \<Rightarrow> 's \<Rightarrow> error + 's" where
  "forEach f [] s = Inr s"
| "forEach f (x # xs) s = (case f x s of Inl e \<Rightarrow> Inl e | Inr s' \<Rightarrow> forEach f xs s')"

definition getPrestigeMultiplier ::
  "(string \<times> prestigeUpgrade) list \<Rightarrow> gameState \<Rightarrow> decimal" where
  "getPrestigeMultiplier pus st =
     fold (\<lambda>(key, upgrade) m.
             if pu_level upgrade > 0 \<and> pu_unlocked upgrade then m * 1.5 ^ pu_level upgrade else m)
          pus
          (if level (prestige st) > 0 then 1 * 2 ^ level (prestige st) else 1)"

definition productionAdd :: "production \<Rightarrow> resource option \<Rightarrow> decimal \<Rightarrow> error + production" where
  "productionAdd production key amount =
     (case key of
        None \<Rightarrow> Inl TypeError
      | Some CompilerPoints \<Rightarrow> Inl TypeError
      | Some r \<Rightarrow> Inr (production(r := production r + amount)))"

definition generatorStep ::
  "(string \<times> prestigeUpgrade) list \<Rightarrow> gameState \<Rightarrow> string \<times> upgradeData \<Rightarrow> production
     \<Rightarrow> error + production" where
  "generatorStep pus st entry production =
     (let upgradeData = snd entry; lvl = levelOf st (fst entry) in
      if lvl > 0 \<and> utype upgradeData = generator
      then (let baseOutput = baseOutput upgradeData * real lvl;
                prestigeMultiplier = getPrestigeMultiplier pus st
            in productionAdd production (resource upgradeData) (baseOutput * prestigeMultiplier))
      else Inr production)"

definition converterStep ::
  "gameState \<Rightarrow> string \<times> upgradeData \<Rightarrow> production \<Rightarrow> error + production" where
  "converterStep st entry production =
     (let upgradeData = snd entry; lvl = levelOf st (fst entry) in
      if lvl > 0 \<and> utype upgradeData = converter
      then (case costResource upgradeData of
              None \<Rightarrow> Inl TypeError
            | Some inputResource \<Rightarrow>
                if resources st inputResource > 0
                then (let conversionRate = baseOutput upgradeData * real lvl;
                          maxConversion = resources st inputResource * conversionRate
                      in productionAdd production (resource upgradeData) maxConversion)
                else Inr production)
      else Inr production)"

text \<open>\<^verbatim>\<open>calculateStage3Production\<close> adds to the production object and, through
  \<^verbatim>\<open>generateCode\<close> and \<^verbatim>\<open>optimize\<close>, updates the two sub-engines.\<close>

definition calculateStage3Production ::
  "nat \<Rightarrow> gameState \<Rightarrow> production \<Rightarrow> production \<times> gameState" where
  "calculateStage3Production now st production =
     (let (production1, st1) =
            (if resources st AstNodes > 0
             then (let (generatedAmount, g) = generateCode (codeGenerator st) (resources st AstNodes)
                   in (production(GeneratedCode := production GeneratedCode + generatedAmount),
                       st\<lparr>codeGenerator := g\<rparr>))
             else (production, st))
      in if resources st1 GeneratedCode > 0
         then (let (optimizedAmount, opt) =
                     optimize now (codeOptimizer st1) (resources st1 GeneratedCode)
               in (production1(OptimizedCode := production1 OptimizedCode + optimizedAmount),
                   st1\<lparr>codeOptimizer := opt\<rparr>))
         else (production1, st1))"

definition calculateProduction ::
  "nat \<Rightarrow> (string \<times> prestigeUpgrade) list \<Rightarrow> gameState \<Rightarrow> error + (production \<times> gameState)" where
  "calculateProduction now pus st =
     (case forEach (generatorStep pus st) UPGRADE_DATA (\<lambda>r. 0) of
        Inl e \<Rightarrow> Inl e
      | Inr production1 \<Rightarrow>
          (case forEach (converterStep st) UPGRADE_DATA production1 of
             Inl e \<Rightarrow> Inl e
           | Inr production2 \<Rightarrow>
               if unlocked (stage3 st)
               then Inr (calculateStage3Production now st production2)
               else Inr (production2, st)))"





section \<open>Persistence (src/storage/storageManager.js)\<close>

text \<open>
  \<^verbatim>\<open>save\<close> builds a plain object and stores its JSON text; \<^verbatim>\<open>load\<close> parses the stored text
  back. The object holds only strings, integers, booleans and nested objects, which JSON
  returns as they were, so the model passes the object itself, and \<open>None\<close> stands for a
  missing item. Every section that \<^verbatim>\<open>load\<close> tests before reading is an option.
  \<^verbatim>\<open>x || d\<close> on a number or a string takes \<open>d\<close> when \<open>x\<close> is 0 or empty.

  Modelled from the spec: the text form of a Decimal. A Decimal is written with
  \<^verbatim>\<open>toString()\<close> and read with \<^verbatim>\<open>new Decimal(string)\<close>, both of decimal.js; the spec asks
  that parsing round-trips exactly with the serialization. The text is opaque here, and
  reading it returns the value written.
\<close>

datatype decimalString = DecimalString decimal

definition toString :: "decimal \<Rightarrow> decimalString" where
  "toString d = DecimalString d"

fun newDecimal :: "decimalString \<Rightarrow> decimal" where
  "newDecimal (DecimalString d) = d"

definition orNumber :: "nat \<Rightarrow> nat \<Rightarrow> nat" where
  "orNumber x d = (if x = 0 then d else x)"

definition orString :: "string \<Rightarrow> string \<Rightarrow> string" where
  "orString x d = (if x = [] then d else x)"

record savedPrestigeUpgrade =
  spu_level :: nat
  spu_cost :: decimalString
  spu_unlocked :: bool

record savedPrestige =
  sp_level :: nat
  sp_totalResets :: nat
  sp_upgrades :: "(string \<rightharpoonup> savedPrestigeUpgrade) option"

record savedOptimization =
  so_level :: nat
  so_cost :: decimalString

record savedStage3 =
  ss_unlocked :: bool
  ss_optimizations :: "(tech \<rightharpoonup> savedOptimization) option"
  ss_currentDeployment :: string
  ss_performanceScore :: decimalString

record savedSettings =
  set_buyAmount :: nat
  set_devMode :: bool
  set_startTime :: nat

record saveData =
  version :: string
  timestamp :: nat
  sd_resources :: "(resource \<rightharpoonup> decimalString) option"
  sd_upgrades :: "(string \<rightharpoonup> nat) option"
  sd_prestige :: "savedPrestige option"
  sd_stage3 :: "savedStage3 option"
  sd_settings :: "savedSettings option"

definition save :: "nat \<Rightarrow> (string \<times> prestigeUpgrade) list \<Rightarrow> gameState \<Rightarrow> saveData" where
  "save now pus st =
     \<lparr>version = ''0.8.0'',
      timestamp = now,
      sd_resources = Some (\<lambda>r. Some (toString (resources st r))),
      sd_upgrades = Some (upgrades st),
      sd_prestige = Some
        \<lparr>sp_level = level (prestige st),
         sp_totalResets = totalResets (prestige st),
         sp_upgrades = Some (map_of (map (\<lambda>(key, upgrade).
             (key, \<lparr>spu_level = pu_level upgrade, spu_cost = toString (pu_cost upgrade),
                    spu_unlocked = pu_unlocked upgrade\<rparr>)) pus))\<rparr>,
      sd_stage3 = Some
        \<lparr>ss_unlocked = unlocked (stage3 st),
         ss_optimizations = Some (\<lambda>key.
             case stage3_optimizations (stage3 st) key of
               None \<Rightarrow> None
             | Some tech \<Rightarrow> Some \<lparr>so_level = s3_level tech, so_cost = toString (s3_cost tech)\<rparr>),
         ss_currentDeployment = currentDeployment (stage3 st),
         ss_performanceScore = toString (performanceScore (stage3 st))\<rparr>,
      sd_settings = Some
        \<lparr>set_buyAmount = buyAmount st, set_devMode = devMode st,
         set_startTime = startTime st\<rparr>\<rparr>"

definition loadResources :: "saveData \<Rightarrow> gameState \<Rightarrow> gameState" where
  "loadResources data st =
     (case sd_resources data of
        None \<Rightarrow> st
      | Some rs \<Rightarrow>
          st\<lparr>resources := (\<lambda>key. case rs key of
                                    Some str \<Rightarrow> newDecimal str
                                  | None \<Rightarrow> resources st key)\<rparr>)"

definition loadUpgrades :: "saveData \<Rightarrow> gameState \<Rightarrow> gameState" where
  "loadUpgrades data st =
     (case sd_upgrades data of
        None \<Rightarrow> st
      | Some us \<Rightarrow>
          st\<lparr>upgrades := (\<lambda>key. case us key of
                                   Some l \<Rightarrow> Some (orNumber l 0)
                                 | None \<Rightarrow> upgrades st key)\<rparr>)"

definition loadPrestigeUpgrades ::
  "savedPrestige \<Rightarrow> (string \<times> prestigeUpgrade) list \<Rightarrow> (string \<times> prestigeUpgrade) list" where
  "loadPrestigeUpgrades pr pus =
     (case sp_upgrades pr of
        None \<Rightarrow> pus
      | Some sus \<Rightarrow>
          map (\<lambda>(key, upgrade).
                 case sus key of
                   None \<Rightarrow> (key, upgrade)
                 | Some upgradeData \<Rightarrow>
                     (key, upgrade\<lparr>pu_level := orNumber (spu_level upgradeData) 0,
                                   pu_cost := newDecimal (spu_cost upgradeData),
                                   pu_unlocked := spu_unlocked upgradeData\<rparr>))
              pus)"

definition loadPrestige :: "saveData \<Rightarrow> gameState \<Rightarrow> gameState" where
  "loadPrestige data st =
     (case sd_prestige data of
        None \<Rightarrow> st
      | Some pr \<Rightarrow>
          st\<lparr>prestige := \<lparr>level = orNumber (sp_level pr) 0,
                           totalResets = orNumber (sp_totalResets pr) 0\<rparr>\<rparr>)"

definition loadStage3 :: "saveData \<Rightarrow> gameState \<Rightarrow> gameState" where
  "loadStage3 data st =
     (case sd_stage3 data of
        None \<Rightarrow> st
      | Some s3 \<Rightarrow>
          st\<lparr>stage3 :=
            \<lparr>unlocked = ss_unlocked s3,
             stage3_optimizations =
               (case ss_optimizations s3 of
                  None \<Rightarrow> stage3_optimizations (stage3 st)
                | Some os \<Rightarrow>
                    (\<lambda>key. case os key of
                              None \<Rightarrow> stage3_optimizations (stage3 st) key
                            | Some optData \<Rightarrow>
                                Some \<lparr>s3_level = orNumber (so_level optData) 0,
                                      s3_cost = newDecimal (so_cost optData)\<rparr>)),
             currentDeployment = orString (ss_currentDeployment s3) ''development'',
             performanceScore = newDecimal (ss_performanceScore s3)\<rparr>\<rparr>)"

definition loadSettings :: "nat \<Rightarrow> saveData \<Rightarrow> gameState \<Rightarrow> gameState" where
  "loadSettings now data st =
     (case sd_settings data of
        None \<Rightarrow> st
      | Some settings \<Rightarrow>
          st\<lparr>buyAmount := orNumber (set_buyAmount settings) 1,
             devMode := set_devMode settings,
             startTime := orNumber (set_startTime settings) now\<rparr>)"

text \<open>\<^verbatim>\<open>load\<close> returns whether an item was found, the prestige-upgrade table and the state
  after the call. It writes the five sections in the order of the source and touches
  nothing else.\<close>

definition load ::
  "nat \<Rightarrow> saveData option \<Rightarrow> (string \<times> prestigeUpgrade) list \<times> gameState
     \<Rightarrow> bool \<times> (string \<times> prestigeUpgrade) list \<times> gameState" where
  "load now item engine =
     (case item of
        None \<Rightarrow> (False, engine)
      | Some data \<Rightarrow>
          (let pus = fst engine; st = snd engine;
               st1 = loadPrestige data (loadUpgrades data (loadResources data st));
               pus1 = (case sd_prestige data of
                         None \<Rightarrow> pus
                       | Some pr \<Rightarrow> loadPrestigeUpgrades pr pus)
           in (True, pus1, loadSettings now data (loadStage3 data st1))))"

section \<open>The tokenizer (src/modules/tokenizer.js)\<close>

text \<open>
  A JavaScript string is a sequence of UTF-16 code units, and a regular expression without
  the \<^verbatim>\<open>u\<close> flag works on code units; a code unit is the integer \<^verbatim>\<open>charCodeAt\<close> gives.
  \<open>str\<close> turns an ASCII literal into such a sequence.
\<close>

type_synonym codeUnit = int
type_synonym jsString = "codeUnit list"

definition str :: "string \<Rightarrow> jsString" where
  "str s = map of_char s"

text \<open>
  The constructs the eight rules use. \<open>Cls\<close> is a character class, \<open>Lit\<close> a literal,
  \<open>Star\<close> the greedy and \<open>LazyStar\<close> the lazy star, \<open>WordB\<close> is \<^verbatim>\<open>\b\<close> and \<open>Eos\<close> is \<^verbatim>\<open>$\<close>
  (no rule has the \<^verbatim>\<open>m\<close> flag, so it holds at the end of the input only).
\<close>

datatype regex =
    Cls "codeUnit \<Rightarrow> bool"
  | Lit jsString
  | Seq regex regex
  | Alt regex regex
  | Star regex
  | LazyStar regex
  | WordB
  | Eos

definition isWordChar :: "codeUnit \<Rightarrow> bool" where
  "isWordChar c = ((48 \<le> c \<and> c \<le> 57) \<or> (65 \<le> c \<and> c \<le> 90) \<or> (97 \<le> c \<and> c \<le> 122) \<or> c = 95)"

definition wordBoundary :: "jsString \<Rightarrow> nat \<Rightarrow> bool" where
  "wordBoundary s p =
     ((0 < p \<and> p - 1 < length s \<and> isWordChar (s ! (p - 1)))
        \<noteq> (p < length s \<and> isWordChar (s ! p)))"

text \<open>
  \<open>ends r s p\<close> lists the positions where a match of \<open>r\<close> that starts at \<open>p\<close> can end, in
  the order in which a backtracking matcher tries them: the alternatives of \<open>Alt\<close> from left
  to right, a greedy star first with one more round and last with none, a lazy star the
  other way round. A round of a star that consumes nothing is not repeated, as in
  ECMAScript; the test that a round ends inside the string is always true
  (\<open>ends_bounds\<close> below) and is there for the termination proof. The first position of
  the list is the match that \<^verbatim>\<open>String.prototype.match\<close> returns.
\<close>

function ends :: "regex \<Rightarrow> jsString \<Rightarrow> nat \<Rightarrow> nat list" where
  "ends (Cls P) s p = (if p < length s \<and> P (s ! p) then [p + 1] else [])"
| "ends (Lit w) s p = (if take (length w) (drop p s) = w then [p + length w] else [])"
| "ends (Seq a b) s p = concat (map (\<lambda>q. ends b s q) (ends a s p))"
| "ends (Alt a b) s p = ends a s p @ ends b s p"
| "ends (Star a) s p =
     concat (map (\<lambda>q. if p < q \<and> q \<le> length s then ends (Star a) s q else []) (ends a s p)) @ [p]"
| "ends (LazyStar a) s p =
     p # concat (map (\<lambda>q. if p < q \<and> q \<le> length s then ends (LazyStar a) s q else [])
                     (ends a s p))"
| "ends WordB s p = (if wordBoundary s p then [p] else [])"
| "ends Eos s p = (if p = length s then [p] else [])"
  by pat_completeness auto
termination
  by (relation "measures [\<lambda>(r, s, p). size r, \<lambda>(r, s, p). length s - p]") auto

declare ends.simps(5) [simp del] ends.simps(6) [simp del]

text \<open>Every rule starts with \<^verbatim>\<open>^\<close> and is applied to \<^verbatim>\<open>code.slice(position)\<close>: the match
  starts at 0 of the slice, and \<^verbatim>\<open>match[0]\<close> is the prefix up to its end.\<close>

definition regexMatch :: "regex \<Rightarrow> jsString \<Rightarrow> jsString option" where
  "regexMatch r s = (case ends r s 0 of [] \<Rightarrow> None | e # others \<Rightarrow> Some (take e s))"

fun alts :: "regex list \<Rightarrow> regex" where
  "alts [] = Cls (\<lambda>c. False)"
| "alts [r] = r"
| "alts (r # rs) = Alt r (alts rs)"

definition oneOrMore :: "regex \<Rightarrow> regex" where
  "oneOrMore r = Seq r (Star r)"

definition optional :: "regex \<Rightarrow> regex" where
  "optional r = Alt r (Lit [])"

text \<open>The classes: \<^verbatim>\<open>[0-9]\<close>, the line terminators that \<^verbatim>\<open>.\<close> excludes, \<^verbatim>\<open>\s\<close> (to which
  \<^verbatim>\<open>\r\<close>, \<^verbatim>\<open>\n\<close>, \<^verbatim>\<open>\t\<close> add nothing), \<^verbatim>\<open>[a-zA-Z_$]\<close> and \<^verbatim>\<open>[a-zA-Z0-9_$]\<close>. A quoted string is
  \<^verbatim>\<open>q([^q\\]|\\.)*q\<close> for the quote \<open>q\<close>: 34 is the double quote, 39 the single quote, 96
  the backtick and 92 the backslash.\<close>

definition isDigit :: "codeUnit \<Rightarrow> bool" where
  "isDigit c = (48 \<le> c \<and> c \<le> 57)"

definition isLineTerminator :: "codeUnit \<Rightarrow> bool" where
  "isLineTerminator c = (c = 10 \<or> c = 13 \<or> c = 8232 \<or> c = 8233)"

definition isSpace :: "codeUnit \<Rightarrow> bool" where
  "isSpace c =
     (List.member [9, 10, 11, 12, 13, 32, 160, 5760, 8232, 8233, 8239, 8287, 12288, 65279] c
        \<or> (8192 \<le> c \<and> c \<le> 8202))"

definition isIdentifierStart :: "codeUnit \<Rightarrow> bool" where
  "isIdentifierStart c = ((97 \<le> c \<and> c \<le> 122) \<or> (65 \<le> c \<and> c \<le> 90) \<or> c = 95 \<or> c = 36)"

definition isIdentifierPart :: "codeUnit \<Rightarrow> bool" where
  "isIdentifierPart c =
     ((97 \<le> c \<and> c \<le> 122) \<or> (65 \<le> c \<and> c \<le> 90) \<or> (48 \<le> c \<and> c \<le> 57) \<or> c = 95 \<or> c = 36)"

definition dot :: regex where
  "dot = Cls (\<lambda>c. \<not> isLineTerminator c)"

definition quoted :: "codeUnit \<Rightarrow> regex" where
  "quoted q =
     Seq (Lit [q])
       (Seq (Star (Alt (Cls (\<lambda>c. c \<noteq> q \<and> c \<noteq> 92)) (Seq (Lit [92]) dot))) (Lit [q]))"

datatype tokenType =
  KEYWORD | NUMBER | STRING | IDENTIFIER | OPERATOR | DELIMITER | WHITESPACE | COMMENT | UNKNOWN

text \<open>
  The rules of the constructor, in their order:
  \<^item> \<open>KEYWORD\<close>: \<^verbatim>\<open>/^(function|var|let|const|if|else|for|while|return|class|import|export|async|await|try|catch|finally|throw|new|this|super|extends|implements|interface|type|enum|namespace|module|declare|abstract|private|public|protected|static|readonly|override)\b/\<close>
  \<^item> \<open>NUMBER\<close>: \<^verbatim>\<open>/^[0-9]+(\.[0-9]+)?\b/\<close>
  \<^item> \<open>STRING\<close>: \<^verbatim>\<open>/^"([^"\\]|\\.)*"|^'([^'\\]|\\.)*'|^`([^`\\]|\\.)*`/\<close>
  \<^item> \<open>IDENTIFIER\<close>: \<^verbatim>\<open>/^[a-zA-Z_$][a-zA-Z0-9_$]*/\<close>
  \<^item> \<open>OPERATOR\<close>: \<^verbatim>\<open>/^(\+\+|--|&&|\|\||==|!=|<=|>=|===|!==|=>|\+|\-|\*|\/|%|&|\||!|<|>|=|\?|:)/\<close>
  \<^item> \<open>DELIMITER\<close>: \<^verbatim>\<open>/^[(){}\[\];,.]/\<close>
  \<^item> \<open>WHITESPACE\<close>: \<^verbatim>\<open>/^[\s\r\n\t]+/\<close>
  \<^item> \<open>COMMENT\<close>: \<^verbatim>\<open>/^\/\/.*$|^\/\*[\s\S]*?\*\//\<close>
\<close>

definition keywordList :: "string list" where
  "keywordList =
     [''function'', ''var'', ''let'', ''const'', ''if'', ''else'', ''for'', ''while'', ''return'',
      ''class'', ''import'', ''export'', ''async'', ''await'', ''try'', ''catch'', ''finally'',
      ''throw'', ''new'', ''this'', ''super'', ''extends'', ''implements'', ''interface'',
      ''type'', ''enum'', ''namespace'', ''module'', ''declare'', ''abstract'', ''private'',
      ''public'', ''protected'', ''static'', ''readonly'', ''override'']"

definition operatorList :: "string list" where
  "operatorList =
     [''++'', ''--'', ''&&'', ''||'', ''=='', ''!='', ''<='', ''>='', ''==='', ''!=='', ''=>'',
      ''+'', ''-'', ''*'', ''/'', ''%'', ''&'', ''|'', ''!'', ''<'', ''>'', ''='', ''?'', '':'']"

definition rules :: "(tokenType \<times> regex) list" where
  "rules =
     [(KEYWORD, Seq (alts (map (\<lambda>w. Lit (str w)) keywordList)) WordB),
      (NUMBER, Seq (oneOrMore (Cls isDigit))
                 (Seq (optional (Seq (Lit (str ''.'')) (oneOrMore (Cls isDigit)))) WordB)),
      (STRING, Alt (quoted 34) (Alt (quoted 39) (quoted 96))),
      (IDENTIFIER, Seq (Cls isIdentifierStart) (Star (Cls isIdentifierPart))),
      (OPERATOR, alts (map (\<lambda>w. Lit (str w)) operatorList)),
      (DELIMITER, Cls (\<lambda>c. List.member (str ''(){}[];,.'') c)),
      (WHITESPACE, oneOrMore (Cls isSpace)),
      (COMMENT, Alt (Seq (Lit (str ''//'')) (Seq (Star dot) Eos))
                    (Seq (Lit (str ''/*'')) (Seq (LazyStar (Cls (\<lambda>c. True))) (Lit (str ''*/'')))))]"

text \<open>
  \<^verbatim>\<open>tokenize\<close> keeps \<^verbatim>\<open>tokens\<close>, \<^verbatim>\<open>position\<close>, \<^verbatim>\<open>line\<close> and \<^verbatim>\<open>column\<close>. One round of its
  \<^verbatim>\<open>while\<close> loop tries the rules in order and takes the first that matches; with no match
  it emits the character at \<^verbatim>\<open>position\<close> as \<open>UNKNOWN\<close>. \<^verbatim>\<open>value.split('\n')\<close> has one part
  more than the value has newlines, and its last part is what follows the last newline.
  The loop is a partial function: that it returns is a theorem, not a convention.
\<close>

record token =
  tok_type :: tokenType
  tok_value :: jsString
  tok_position :: nat
  tok_line :: nat
  tok_column :: nat

record lexerState =
  tokens :: "token list"
  position :: nat
  line :: nat
  column :: nat

fun firstMatch :: "(tokenType \<times> regex) list \<Rightarrow> jsString \<Rightarrow> (tokenType \<times> jsString) option" where
  "firstMatch [] rest = None"
| "firstMatch (rule # others) rest =
     (case regexMatch (snd rule) rest of
        Some v \<Rightarrow> Some (fst rule, v)
      | None \<Rightarrow> firstMatch others rest)"

definition tokenize_step :: "jsString \<Rightarrow> lexerState \<Rightarrow> lexerState" where
  "tokenize_step code st =
     (case firstMatch rules (drop (position st) code) of
        Some (ty, v) \<Rightarrow>
          (let toks = (if ty \<noteq> WHITESPACE \<and> ty \<noteq> COMMENT
                       then tokens st @ [\<lparr>tok_type = ty, tok_value = v,
                                           tok_position = position st, tok_line = line st,
                                           tok_column = column st\<rparr>]
                       else tokens st);
               newlines = length (filter (\<lambda>c. c = 10) v)
           in if newlines > 0
              then \<lparr>tokens = toks, position = position st + length v,
                    line = line st + newlines,
                    column = length (takeWhile (\<lambda>c. c \<noteq> 10) (rev v)) + 1\<rparr>
              else \<lparr>tokens = toks, position = position st + length v,
                    line = line st, column = column st + length v\<rparr>)
      | None \<Rightarrow>
          \<lparr>tokens = tokens st @ [\<lparr>tok_type = UNKNOWN, tok_value = [code ! position st],
                                   tok_position = position st, tok_line = line st,
                                   tok_column = column st\<rparr>],
           position = position st + 1, line = line st, column = column st + 1\<rparr>)"

partial_function (option) tokenize_loop :: "jsString \<Rightarrow> lexerState \<Rightarrow> lexerState option" where
  "tokenize_loop code st =
     (if position st < length code then tokenize_loop code (tokenize_step code st)
      else Some st)"

declare tokenize_loop.simps [code]

definition tokenize :: "jsString \<Rightarrow> token list option" where
  "tokenize code =
     map_option tokens (tokenize_loop code \<lparr>tokens = [], position = 0, line = 1, column = 1\<rparr>)"


section \<open>Rounding to 100 significant digits\<close>

lemma exponent_eq:
  fixes a :: real
  assumes a: "0 < a" and lo: "10 ^ 99 \<le> a * 10 powi q" and hi: "a * 10 powi q < 10 ^ 100"
  shows "99 - \<lfloor>log 10 a\<rfloor> = q"
proof -
  have p: "(0::real) < 10 powi q" by simp
  have e1: "(10::real) powi (99 - q) * 10 powi q = 10 ^ 99"
    by (simp flip: power_int_add)
  have e2: "(10::real) powi (99 - q + 1) * 10 powi q = 10 ^ 100"
    by (simp flip: power_int_add)
  from lo e1 have "10 powi (99 - q) * 10 powi q \<le> a * 10 powi q" by simp
  with p have l: "10 powi (99 - q) \<le> a" by simp
  from hi e2 have "a * 10 powi q < 10 powi (99 - q + 1) * 10 powi q" by simp
  with p have h: "a < 10 powi (99 - q + 1)" by simp
  have pw: "\<And>n::int. (10::real) powr real_of_int n = 10 powi n"
    by (rule powr_real_of_int') simp_all
  have "10 powr real_of_int (99 - q) \<le> a \<and> a < 10 powr real_of_int (99 - q + 1)"
    unfolding pw using l h by simp
  then have "\<lfloor>log 10 a\<rfloor> = 99 - q"
    using a by (subst floor_log_eq_powr_iff) simp_all
  then show ?thesis by simp
qed

lemma toPrecision_eval:
  fixes x :: real
  assumes "0 < x" "10 ^ 99 \<le> x * 10 powi q" "x * 10 powi q < 10 ^ 100"
    and "of_int m \<le> x * 10 powi q + 1 / 2" "x * 10 powi q + 1 / 2 < of_int m + 1"
  shows "toPrecision x = of_int m / 10 powi q"
proof -
  have q: "99 - \<lfloor>log 10 x\<rfloor> = q"
    using assms(1-3) by (intro exponent_eq)
  have f: "\<lfloor>x * 10 powi q + 1 / 2\<rfloor> = m"
    using assms(4,5) by (intro floor_unique) simp_all
  show ?thesis
    using assms(1) by (simp add: toPrecision_def q f Let_def)
qed

lemma toPrecision_fits:
  assumes "\<bar>m\<bar> < 10 ^ 100"
  shows "toPrecision (of_int m * 10 powi k) = of_int m * 10 powi k"
proof (cases "m = 0")
  case True
  then show ?thesis by (simp add: toPrecision_def)
next
  case False
  define x :: real where "x = of_int m * 10 powi k"
  define a :: real where "a = \<bar>x\<bar>"
  define q where "q = 99 - \<lfloor>log 10 a\<rfloor>"
  have a: "a = of_int \<bar>m\<bar> * 10 powi k" by (simp add: a_def x_def abs_mult)
  have apos: "0 < a" using False by (simp add: a)
  have "a < 10 ^ 100 * 10 powi k"
  proof -
    have "(of_int \<bar>m\<bar> :: real) < of_int (10 ^ 100)" using assms by (simp only: of_int_less_iff)
    then have "(of_int \<bar>m\<bar> :: real) < 10 ^ 100" by simp
    then show ?thesis unfolding a by (simp add: mult_strict_right_mono)
  qed
  also have "\<dots> = 10 powi (100 + k)" by (simp add: power_int_add)
  finally have "a < 10 powi (100 + k)" .
  moreover have "(10::real) powr real_of_int (100 + k) = 10 powi (100 + k)"
    by (rule powr_real_of_int') simp_all
  ultimately have "a < 10 powr (of_int (100 + k))" by simp
  then have "log 10 a < of_int (100 + k)" using apos by (simp add: log_less_iff)
  then have "\<lfloor>log 10 a\<rfloor> < 100 + k" by (simp add: floor_less_iff)
  then have kq: "0 \<le> k + q" by (simp add: q_def)
  have "a * 10 powi q = of_int \<bar>m\<bar> * 10 powi (k + q)"
    by (simp add: a power_int_add)
  also have "\<dots> = of_int (\<bar>m\<bar> * 10 ^ nat (k + q))"
    using kq by (simp add: power_int_def)
  finally have i: "a * 10 powi q = of_int (\<bar>m\<bar> * 10 ^ nat (k + q))" .
  have "\<lfloor>a * 10 powi q + 1 / 2\<rfloor> = \<bar>m\<bar> * 10 ^ nat (k + q)"
    unfolding i by (intro floor_unique) simp_all
  then have "of_int \<lfloor>a * 10 powi q + 1 / 2\<rfloor> / 10 powi q = a"
    using i by (metis nonzero_mult_div_cancel_right power_int_eq_0_iff zero_neq_numeral)
  then have r: "of_int \<lfloor>\<bar>x\<bar> * 10 powi (99 - \<lfloor>log 10 \<bar>x\<bar>\<rfloor>) + 1 / 2\<rfloor>
                 / 10 powi (99 - \<lfloor>log 10 \<bar>x\<bar>\<rfloor>) = \<bar>x\<bar>"
    by (simp only: a_def q_def)
  have xnz: "x \<noteq> 0" using apos by (simp add: a_def)
  have "toPrecision x = sgn x * (of_int \<lfloor>\<bar>x\<bar> * 10 powi (99 - \<lfloor>log 10 \<bar>x\<bar>\<rfloor>) + 1 / 2\<rfloor>
                 / 10 powi (99 - \<lfloor>log 10 \<bar>x\<bar>\<rfloor>))"
    using xnz by (simp add: toPrecision_def Let_def)
  also have "\<dots> = sgn x * \<bar>x\<bar>" by (simp only: r)
  also have "\<dots> = x" by (simp add: sgn_mult_abs)
  finally show ?thesis by (simp add: x_def)
qed

lemma round_lower:
  fixes A M P B :: real
  assumes "0 < P" "B + 1 \<le> M" "2 * (M * P) \<le> 2 * A + P"
  shows "B * P \<le> A"
proof -
  have "(B + 1) * P \<le> M * P" using assms(1,2) by (simp add: mult_right_mono)
  then have "B * P + P \<le> M * P" by (simp add: algebra_simps)
  with assms(1,3) show ?thesis by linarith
qed

lemma round_upper:
  fixes A M P C :: real
  assumes "0 < P" "M \<le> C - 1" "2 * A + P < 2 * (M * P) + 2 * P"
  shows "A < C * P"
proof -
  have "M * P \<le> (C - 1) * P" using assms(1,2) by (simp add: mult_right_mono)
  then have "M * P \<le> C * P - P" by (simp add: algebra_simps)
  with assms(1,3) show ?thesis by linarith
qed

lemma toPrecision_round:
  fixes a m :: int and j :: nat and e :: int
  assumes m1: "10 ^ 99 < m" and m2: "m < 10 ^ 100"
    and lo: "2 * (m * 10 ^ j) \<le> 2 * a + 10 ^ j"
    and hi: "2 * a + 10 ^ j < 2 * (m * 10 ^ j) + 2 * 10 ^ j"
  shows "toPrecision (of_int a * 10 powi e) = of_int m * 10 powi (e + int j)"
proof -
  define P :: real where "P = 10 ^ j"
  define A :: real where "A = of_int a"
  define M :: real where "M = of_int m"
  define q where "q = - (e + int j)"
  have P: "0 < P" by (simp add: P_def)
  have "real_of_int (10 ^ 99 + 1) \<le> of_int m" using m1 by (simp only: of_int_le_iff)
  then have M1: "10 ^ 99 + 1 \<le> M" by (simp add: M_def)
  have "real_of_int m \<le> of_int (10 ^ 100 - 1)" using m2 by (simp only: of_int_le_iff)
  then have M2: "M \<le> 10 ^ 100 - 1" by (simp add: M_def)
  have "real_of_int (2 * (m * 10 ^ j)) \<le> of_int (2 * a + 10 ^ j)"
    using lo by (simp only: of_int_le_iff)
  then have L: "2 * (M * P) \<le> 2 * A + P" by (simp add: M_def P_def A_def)
  have "real_of_int (2 * a + 10 ^ j) < of_int (2 * (m * 10 ^ j) + 2 * 10 ^ j)"
    using hi by (simp only: of_int_less_iff)
  then have H: "2 * A + P < 2 * (M * P) + 2 * P" by (simp add: M_def P_def A_def)
  have A1: "10 ^ 99 * P \<le> A" using P M1 L by (rule round_lower)
  have A2: "A < 10 ^ 100 * P" using P M2 H by (rule round_upper)
  define x where "x = A * 10 powi e"
  have "(10::real) powi e * 10 powi q = 10 powi (e + q)" by (simp add: power_int_add)
  also have "e + q = - int j" by (simp add: q_def)
  also have "(10::real) powi (- int j) = 1 / P" by (simp add: P_def power_int_minus field_simps)
  finally have "A * (10 powi e * 10 powi q) = A * (1 / P)" by (simp only:)
  then have xq: "x * 10 powi q = A / P" by (simp add: x_def mult.assoc)
  have xpos: "0 < x"
  proof -
    have "0 < 10 ^ 99 * P" using P by simp
    with A1 have "0 < A" by linarith
    then show ?thesis by (simp add: x_def)
  qed
  have "toPrecision x = of_int m / 10 powi q"
  proof (rule toPrecision_eval)
    show "0 < x" by (rule xpos)
    show "10 ^ 99 \<le> x * 10 powi q" unfolding xq using A1 P by (simp add: field_simps)
    show "x * 10 powi q < 10 ^ 100" unfolding xq using A2 P by (simp add: field_simps)
    show "real_of_int m \<le> x * 10 powi q + 1 / 2"
      unfolding xq using L P by (simp add: field_simps M_def)
    show "x * 10 powi q + 1 / 2 < real_of_int m + 1"
      unfolding xq using H P by (simp add: field_simps M_def)
  qed
  moreover have "real_of_int m / 10 powi q = of_int m * 10 powi (e + int j)"
    unfolding q_def by (subst power_int_minus) (simp add: field_simps)
  ultimately show ?thesis by (simp only: x_def A_def)
qed

lemma toPrecision_exact:
  fixes m :: int
  assumes "\<bar>m\<bar> < 10 ^ 100"
  shows "toPrecision (of_int m / 10 ^ q) = of_int m / 10 ^ q"
proof -
  have e: "real_of_int m * 10 powi (- int q) = of_int m / 10 ^ q"
    by (simp add: power_int_minus field_simps)
  show ?thesis using toPrecision_fits [OF assms, of "- int q"] unfolding e .
qed

lemma toPrecision_ratio:
  fixes a m :: int
  assumes "k = q + j" "10 ^ 99 < m" "m < 10 ^ 100"
    and "2 * (m * 10 ^ j) \<le> 2 * a + 10 ^ j"
    and "2 * a + 10 ^ j < 2 * (m * 10 ^ j) + 2 * 10 ^ j"
  shows "toPrecision (of_int a / 10 ^ k) = of_int m / 10 ^ q"
proof -
  have e: "real_of_int a * 10 powi (- int k) = of_int a / 10 ^ k"
    by (simp add: power_int_minus field_simps)
  have f: "real_of_int m * 10 powi (- int k + int j) = of_int m / 10 ^ q"
    unfolding assms(1) by (simp add: power_int_minus field_simps)
  show ?thesis using toPrecision_round [OF assms(2-5), of "- int k"] unfolding e f .
qed

section \<open>Evaluating the rounded operations\<close>

lemma Decimal_pow_round:
  fixes g a m :: int
  assumes "x = of_int g / 10 ^ e" "g ^ l = a" "e * l = q + j" "10 ^ 99 < m" "m < 10 ^ 100"
    and "2 * (m * 10 ^ j) \<le> 2 * a + 10 ^ j"
    and "2 * a + 10 ^ j < 2 * (m * 10 ^ j) + 2 * 10 ^ j"
  shows "Decimal_pow x l = of_int m / 10 ^ q"
proof -
  have "x ^ l = of_int (g ^ l) / 10 ^ (e * l)"
    by (simp add: assms(1) power_divide power_mult)
  then have "x ^ l = of_int a / 10 ^ (e * l)" by (simp only: assms(2))
  then show ?thesis
    unfolding Decimal_pow_def using toPrecision_ratio [OF assms(3-7)] by (simp only:)
qed

lemma Decimal_mul_round:
  fixes b' M a m :: int
  assumes "b = of_int b'" "b' * M = a" "k = q + j" "10 ^ 99 < m" "m < 10 ^ 100"
    and "2 * (m * 10 ^ j) \<le> 2 * a + 10 ^ j"
    and "2 * a + 10 ^ j < 2 * (m * 10 ^ j) + 2 * 10 ^ j"
  shows "Decimal_mul b (of_int M / 10 ^ k) = of_int m / 10 ^ q"
proof -
  have "b * (of_int M / 10 ^ k) = of_int (b' * M) / 10 ^ k" by (simp add: assms(1))
  then have "b * (of_int M / 10 ^ k) = of_int a / 10 ^ k" by (simp only: assms(2))
  then show ?thesis
    unfolding Decimal_mul_def using toPrecision_ratio [OF assms(3-7)] by (simp only:)
qed

lemma ratio_add:
  fixes T C :: int
  assumes "k = q1 + s1" "k = q2 + s2"
  shows "real_of_int T / 10 ^ q1 + of_int C / 10 ^ q2 = of_int (T * 10 ^ s1 + C * 10 ^ s2) / 10 ^ k"
proof -
  have "real_of_int T / 10 ^ q1 = of_int (T * 10 ^ s1) / 10 ^ (q1 + s1)"
    by (simp add: power_add)
  moreover have "real_of_int C / 10 ^ q2 = of_int (C * 10 ^ s2) / 10 ^ (q2 + s2)"
    by (simp add: power_add)
  ultimately show ?thesis
    unfolding assms(1) [symmetric] assms(2) [symmetric] by (simp add: add_divide_distrib)
qed

lemma Decimal_add_round:
  fixes T C a m :: int
  assumes "k = q1 + s1" "k = q2 + s2" "T * 10 ^ s1 + C * 10 ^ s2 = a"
    and "k = q + j" "10 ^ 99 < m" "m < 10 ^ 100"
    and "2 * (m * 10 ^ j) \<le> 2 * a + 10 ^ j"
    and "2 * a + 10 ^ j < 2 * (m * 10 ^ j) + 2 * 10 ^ j"
  shows "Decimal_add (of_int T / 10 ^ q1) (of_int C / 10 ^ q2) = of_int m / 10 ^ q"
  unfolding Decimal_add_def ratio_add [OF assms(1,2)] assms(3)
  by (rule toPrecision_ratio [OF assms(4-8)])

lemma Decimal_add_exact:
  fixes T C a :: int
  assumes "k = q1 + s1" "k = q2 + s2" "T * 10 ^ s1 + C * 10 ^ s2 = a" "\<bar>a\<bar> < 10 ^ 100"
  shows "Decimal_add (of_int T / 10 ^ q1) (of_int C / 10 ^ q2) = of_int a / 10 ^ k"
  unfolding Decimal_add_def ratio_add [OF assms(1,2)] assms(3)
  by (rule toPrecision_exact [OF assms(4)])

lemma Decimal_add_zero:
  fixes C :: int
  assumes "\<bar>C\<bar> < 10 ^ 100"
  shows "Decimal_add 0 (of_int C / 10 ^ q) = of_int C / 10 ^ q"
  unfolding Decimal_add_def using toPrecision_exact [OF assms] by simp

lemma power_next:
  fixes g :: int
  assumes "g ^ l = n" "l' = Suc l" "g * n = n'"
  shows "g ^ l' = n'"
  using assms by simp

section \<open>The cost loop\<close>

lemma totalCost_0: "totalCost d L 0 = 0"
  by (simp add: totalCost_def)

lemma totalCost_Suc:
  "totalCost d L (Suc n)
     = Decimal_add (totalCost d L n) (Decimal_mul (baseCost d) (Decimal_pow (growth d) (L + n)))"
  by (simp add: totalCost_def)

lemma totalCost_step:
  assumes "totalCost d L n = t" "n' = Suc n" "l = L + n" "baseCost d = b" "growth d = g"
    and "Decimal_mul b (Decimal_pow g l) = c" "Decimal_add t c = t'"
  shows "totalCost d L n' = t'"
  using assms by (simp add: totalCost_Suc)

section \<open>The bulk cost at level 56 of \<^verbatim>\<open>auto-scanner-2\<close>\<close>

text \<open>
  The values of the cost loop for base cost 500 and growth 1.18 at levels 56, 57 and 58,
  each with the 100 digits the rounding leaves: the powers of 118, the rounded powers of
  1.18 and single costs, and the partial sums of the loop started at level 56 (three
  rounds) and at level 57 (two rounds).
\<close>

lemma growth_pow_56:
  "(118::int) ^ 56 =
     106021125217048998045050320868660671157770723316485083396919337236610500764818821004513476004770152611523443059326976"
  by simp

lemma growth_pow_57:
  "(118::int) ^ 57 =
     12510492775611781769315937862501959196616945351345239840836481793920039090248620878532590168562878008159766281000583168"
  by (rule power_next [OF growth_pow_56]) simp_all

lemma growth_pow_58:
  "(118::int) ^ 58 =
     1476238147522190248779280667775231185200799551458738301218704851682564612649337263666845639890419604962852421158068813824"
  by (rule power_next [OF growth_pow_57]) simp_all

lemma pow_56:
  "Decimal_pow (of_int 118 / 10 ^ 2) 56 =
     of_int 1060211252170489980450503208686606711577707233164850833969193372366105007648188210045134760047701526 / 10 ^ 95"
  by (rule Decimal_pow_round [where j = 17, OF _ growth_pow_56]) simp_all

lemma cost_56:
  "Decimal_mul 500 (Decimal_pow (of_int 118 / 10 ^ 2) 56) =
     of_int 5301056260852449902252516043433033557888536165824254169845966861830525038240941050225673800238507630 / 10 ^ 93"
  unfolding pow_56
  by (rule Decimal_mul_round [where b'= 500 and j = 2 and a = "530105626085244990225251604343303355788853616582425416984596686183052503824094105022567380023850763000"]) simp_all

lemma pow_57:
  "Decimal_pow (of_int 118 / 10 ^ 2) 57 =
     of_int 1251049277561178176931593786250195919661694535134523984083648179392003909024862087853259016856287801 / 10 ^ 95"
  by (rule Decimal_pow_round [where j = 19, OF _ growth_pow_57]) simp_all

lemma cost_57:
  "Decimal_mul 500 (Decimal_pow (of_int 118 / 10 ^ 2) 57) =
     of_int 6255246387805890884657968931250979598308472675672619920418240896960019545124310439266295084281439005 / 10 ^ 93"
  unfolding pow_57
  by (rule Decimal_mul_round [where b'= 500 and j = 2 and a = "625524638780589088465796893125097959830847267567261992041824089696001954512431043926629508428143900500"]) simp_all

lemma pow_58:
  "Decimal_pow (of_int 118 / 10 ^ 2) 58 =
     of_int 1476238147522190248779280667775231185200799551458738301218704851682564612649337263666845639890419605 / 10 ^ 95"
  by (rule Decimal_pow_round [where j = 21, OF _ growth_pow_58]) simp_all

lemma cost_58:
  "Decimal_mul 500 (Decimal_pow (of_int 118 / 10 ^ 2) 58) =
     of_int 7381190737610951243896403338876155926003997757293691506093524258412823063246686318334228199452098025 / 10 ^ 93"
  unfolding pow_58
  by (rule Decimal_mul_round [where b'= 500 and j = 2 and a = "738119073761095124389640333887615592600399775729369150609352425841282306324668631833422819945209802500"]) simp_all

lemma totalCost_a_1:
  assumes "baseCost d = 500" "growth d = of_int 118 / 10 ^ 2"
  shows "totalCost d 56 1 =
     of_int 5301056260852449902252516043433033557888536165824254169845966861830525038240941050225673800238507630 / 10 ^ 93"
proof (rule totalCost_step [OF totalCost_0 _ _ assms cost_56])
  show "Decimal_add (0)
     (of_int 5301056260852449902252516043433033557888536165824254169845966861830525038240941050225673800238507630 / 10 ^ 93) =
     of_int 5301056260852449902252516043433033557888536165824254169845966861830525038240941050225673800238507630 / 10 ^ 93"
    by (rule Decimal_add_zero) simp
qed simp_all

lemma totalCost_a_2:
  assumes "baseCost d = 500" "growth d = of_int 118 / 10 ^ 2"
  shows "totalCost d 56 2 =
     of_int 1155630264865834078691048497468401315619700884149687409026420775879054458336525148949196888451994664 / 10 ^ 92"
proof (rule totalCost_step [OF totalCost_a_1 [OF assms] _ _ assms cost_57])
  show "Decimal_add (of_int 5301056260852449902252516043433033557888536165824254169845966861830525038240941050225673800238507630 / 10 ^ 93)
     (of_int 6255246387805890884657968931250979598308472675672619920418240896960019545124310439266295084281439005 / 10 ^ 93) =
     of_int 1155630264865834078691048497468401315619700884149687409026420775879054458336525148949196888451994664 / 10 ^ 92"
    by (rule Decimal_add_round [where ?s1.0 = 0 and ?s2.0 = 0 and j = 1 and a = "11556302648658340786910484974684013156197008841496874090264207758790544583365251489491968884519946635"]) simp_all
qed simp_all

lemma totalCost_a_3:
  assumes "baseCost d = 500" "growth d = of_int 118 / 10 ^ 2"
  shows "totalCost d 56 3 =
     of_int 1893749338626929203080688831356016908220100659879056559635773201720336764661193780782619708397204467 / 10 ^ 92"
proof (rule totalCost_step [OF totalCost_a_2 [OF assms] _ _ assms cost_58])
  show "Decimal_add (of_int 1155630264865834078691048497468401315619700884149687409026420775879054458336525148949196888451994664 / 10 ^ 92)
     (of_int 7381190737610951243896403338876155926003997757293691506093524258412823063246686318334228199452098025 / 10 ^ 93) =
     of_int 1893749338626929203080688831356016908220100659879056559635773201720336764661193780782619708397204467 / 10 ^ 92"
    by (rule Decimal_add_round [where ?s1.0 = 1 and ?s2.0 = 0 and j = 1 and a = "18937493386269292030806888313560169082201006598790565596357732017203367646611937807826197083972044665"]) simp_all
qed simp_all

lemma totalCost_b_1:
  assumes "baseCost d = 500" "growth d = of_int 118 / 10 ^ 2"
  shows "totalCost d 57 1 =
     of_int 6255246387805890884657968931250979598308472675672619920418240896960019545124310439266295084281439005 / 10 ^ 93"
proof (rule totalCost_step [OF totalCost_0 _ _ assms cost_57])
  show "Decimal_add (0)
     (of_int 6255246387805890884657968931250979598308472675672619920418240896960019545124310439266295084281439005 / 10 ^ 93) =
     of_int 6255246387805890884657968931250979598308472675672619920418240896960019545124310439266295084281439005 / 10 ^ 93"
    by (rule Decimal_add_zero) simp
qed simp_all

lemma totalCost_b_2:
  assumes "baseCost d = 500" "growth d = of_int 118 / 10 ^ 2"
  shows "totalCost d 57 2 =
     of_int 1363643712541684212855437227012713552431247043296631142651176515537284260837099675760052328373353703 / 10 ^ 92"
proof (rule totalCost_step [OF totalCost_b_1 [OF assms] _ _ assms cost_58])
  show "Decimal_add (of_int 6255246387805890884657968931250979598308472675672619920418240896960019545124310439266295084281439005 / 10 ^ 93)
     (of_int 7381190737610951243896403338876155926003997757293691506093524258412823063246686318334228199452098025 / 10 ^ 93) =
     of_int 1363643712541684212855437227012713552431247043296631142651176515537284260837099675760052328373353703 / 10 ^ 92"
    by (rule Decimal_add_round [where ?s1.0 = 0 and ?s2.0 = 0 and j = 1 and a = "13636437125416842128554372270127135524312470432966311426511765155372842608370996757600523283733537030"]) simp_all
qed simp_all

lemma rounded_sum:
  "Decimal_add (of_int 5301056260852449902252516043433033557888536165824254169845966861830525038240941050225673800238507630 / 10 ^ 93)
     (of_int 1363643712541684212855437227012713552431247043296631142651176515537284260837099675760052328373353703 / 10 ^ 92) =
     of_int 1893749338626929203080688831356016908220100659879056559635773201720336764661193780782619708397204466 / 10 ^ 92"
  by (rule Decimal_add_round [where ?s1.0 = 0 and ?s2.0 = 1 and j = 1 and a = "18937493386269292030806888313560169082201006598790565596357732017203367646611937807826197083972044660"]) simp_all


section \<open>Bulk-cost additivity\<close>

lemma sum_split:
  fixes f :: "nat \<Rightarrow> real"
  shows "(\<Sum>i<a + b. f i) = (\<Sum>i<a. f i) + (\<Sum>i<b. f (a + i))"
  by (induction b) (simp_all add: add.assoc)

lemma totalCost_exact:
  assumes "\<forall>i<n. toPrecision (growth d ^ (L + i)) = growth d ^ (L + i)"
    and "\<forall>i<n. toPrecision (baseCost d * growth d ^ (L + i)) = baseCost d * growth d ^ (L + i)"
    and "\<forall>k\<le>n. toPrecision (\<Sum>i<k. baseCost d * growth d ^ (L + i))
                    = (\<Sum>i<k. baseCost d * growth d ^ (L + i))"
  shows "totalCost d L n = (\<Sum>i<n. baseCost d * growth d ^ (L + i))"
  using assms
proof (induction n)
  case 0
  show ?case by (simp add: totalCost_0)
next
  case (Suc n)
  have ih: "totalCost d L n = (\<Sum>i<n. baseCost d * growth d ^ (L + i))"
    using Suc.prems by (intro Suc.IH) simp_all
  have p: "Decimal_pow (growth d) (L + n) = growth d ^ (L + n)"
    using Suc.prems(1) by (simp add: Decimal_pow_def)
  have c: "Decimal_mul (baseCost d) (growth d ^ (L + n)) = baseCost d * growth d ^ (L + n)"
    using Suc.prems(2) by (simp add: Decimal_mul_def)
  have "toPrecision (\<Sum>i<Suc n. baseCost d * growth d ^ (L + i))
          = (\<Sum>i<Suc n. baseCost d * growth d ^ (L + i))"
    using Suc.prems(3) by blast
  then show ?case
    by (simp add: totalCost_Suc ih p c Decimal_add_def)
qed

text \<open>
  Claim C9, as stated, fails. The loop rounds every power, every single cost and every
  partial sum to 100 significant digits, and the roundings of a purchase made at once
  are not those of the same purchase made in two parts. For \<^verbatim>\<open>auto-scanner-2\<close>
  (base cost 500, growth 1.18) at level 56 the cost of three levels is neither the sum of
  the cost of one level and the cost of the next two, nor that sum rounded by \<^verbatim>\<open>add\<close>: the
  two sides differ by \<open>10 ^ -92\<close>.
\<close>

theorem bulk_cost_additive_counterexample:
  "totalCost (the (map_of UPGRADE_DATA ''auto-scanner-2'')) 56 (1 + 2)
     \<noteq> totalCost (the (map_of UPGRADE_DATA ''auto-scanner-2'')) 56 1
       + totalCost (the (map_of UPGRADE_DATA ''auto-scanner-2'')) (56 + 1) 2
   \<and> totalCost (the (map_of UPGRADE_DATA ''auto-scanner-2'')) 56 (1 + 2)
     \<noteq> Decimal_add (totalCost (the (map_of UPGRADE_DATA ''auto-scanner-2'')) 56 1)
                    (totalCost (the (map_of UPGRADE_DATA ''auto-scanner-2'')) (56 + 1) 2)"
proof -
  let ?d = "the (map_of UPGRADE_DATA ''auto-scanner-2'')"
  have b: "baseCost ?d = 500" by (simp add: UPGRADE_DATA_def)
  have g: "growth ?d = of_int 118 / 10 ^ 2" by (simp add: UPGRADE_DATA_def)
  have n: "(1::nat) + 2 = 3" "(56::nat) + 1 = 57" by simp_all
  note x = totalCost_a_3 [OF b g] and y = totalCost_a_1 [OF b g] and z = totalCost_b_2 [OF b g]
  have 1: "totalCost ?d 56 3 \<noteq> totalCost ?d 56 1 + totalCost ?d 57 2"
    unfolding x y z by simp
  have 2: "totalCost ?d 56 3 \<noteq> Decimal_add (totalCost ?d 56 1) (totalCost ?d 57 2)"
    unfolding x y z rounded_sum by simp
  show ?thesis unfolding n using 1 2 by (rule conjI)
qed

text \<open>
  Claim C9, amended. The bulk cost is what the loop computes: 0 for no level, and for one
  more level the rounded sum of the cost so far and the rounded cost of that level, itself
  the rounded product of the base cost and the rounded power. Whenever rounding to 100
  significant digits changes none of the powers, single costs and partial sums of the
  three loops, the bulk cost is the sum of \<open>baseCost \<times> growth ^ (L + i)\<close> and
  \<open>bulkCost(def, L, a + b) = bulkCost(def, L, a) + bulkCost(def, L + a, b)\<close> holds.
\<close>

theorem bulk_cost_additive:
  "totalCost d L 0 = 0
   \<and> totalCost d L (Suc n)
       = Decimal_add (totalCost d L n)
           (Decimal_mul (baseCost d) (Decimal_pow (growth d) (L + n)))
   \<and> ((\<forall>i<a + b. toPrecision (growth d ^ (L + i)) = growth d ^ (L + i)
               \<and> toPrecision (baseCost d * growth d ^ (L + i))
                   = baseCost d * growth d ^ (L + i))
        \<and> (\<forall>k\<le>a + b. toPrecision (\<Sum>i<k. baseCost d * growth d ^ (L + i))
                         = (\<Sum>i<k. baseCost d * growth d ^ (L + i)))
        \<and> (\<forall>k\<le>b. toPrecision (\<Sum>i<k. baseCost d * growth d ^ (L + a + i))
                     = (\<Sum>i<k. baseCost d * growth d ^ (L + a + i)))
        \<longrightarrow> totalCost d L (a + b) = (\<Sum>i<a + b. baseCost d * growth d ^ (L + i))
            \<and> totalCost d L (a + b) = totalCost d L a + totalCost d (L + a) b)"
proof (intro conjI impI)
  show "totalCost d L 0 = 0" by (rule totalCost_0)
  show "totalCost d L (Suc n)
       = Decimal_add (totalCost d L n)
           (Decimal_mul (baseCost d) (Decimal_pow (growth d) (L + n)))"
    by (rule totalCost_Suc)
next
  assume h: "(\<forall>i<a + b. toPrecision (growth d ^ (L + i)) = growth d ^ (L + i)
               \<and> toPrecision (baseCost d * growth d ^ (L + i))
                   = baseCost d * growth d ^ (L + i))
        \<and> (\<forall>k\<le>a + b. toPrecision (\<Sum>i<k. baseCost d * growth d ^ (L + i))
                         = (\<Sum>i<k. baseCost d * growth d ^ (L + i)))
        \<and> (\<forall>k\<le>b. toPrecision (\<Sum>i<k. baseCost d * growth d ^ (L + a + i))
                     = (\<Sum>i<k. baseCost d * growth d ^ (L + a + i)))"
  have whole: "totalCost d L (a + b) = (\<Sum>i<a + b. baseCost d * growth d ^ (L + i))"
    using h by (intro totalCost_exact) simp_all
  have first: "totalCost d L a = (\<Sum>i<a. baseCost d * growth d ^ (L + i))"
    using h by (intro totalCost_exact) simp_all
  have "\<forall>i<b. toPrecision (growth d ^ (L + a + i)) = growth d ^ (L + a + i)
             \<and> toPrecision (baseCost d * growth d ^ (L + a + i))
                 = baseCost d * growth d ^ (L + a + i)"
  proof (intro allI impI)
    fix i assume "i < b"
    then have "a + i < a + b" by simp
    with h have "toPrecision (growth d ^ (L + (a + i))) = growth d ^ (L + (a + i))
             \<and> toPrecision (baseCost d * growth d ^ (L + (a + i)))
                 = baseCost d * growth d ^ (L + (a + i))" by blast
    then show "toPrecision (growth d ^ (L + a + i)) = growth d ^ (L + a + i)
             \<and> toPrecision (baseCost d * growth d ^ (L + a + i))
                 = baseCost d * growth d ^ (L + a + i)" by (simp add: add.assoc)
  qed
  with h have second: "totalCost d (L + a) b = (\<Sum>i<b. baseCost d * growth d ^ (L + a + i))"
    by (intro totalCost_exact) simp_all
  show "totalCost d L (a + b) = (\<Sum>i<a + b. baseCost d * growth d ^ (L + i))" by (rule whole)
  show "totalCost d L (a + b) = totalCost d L a + totalCost d (L + a) b"
    unfolding whole first second by (simp add: sum_split add.assoc)
qed

lemma less_two: "i < (1::nat) + 1 \<Longrightarrow> i = 0 \<or> i = 1"
  by auto

lemma le_two: "k \<le> (1::nat) + 1 \<Longrightarrow> k = 0 \<or> k = 1 \<or> k = 2"
  by auto

lemma le_one: "k \<le> (1::nat) \<Longrightarrow> k = 0 \<or> k = 1"
  by auto

lemma toPrecision_int:
  fixes m :: int
  assumes "\<bar>m\<bar> < 10 ^ 100"
  shows "toPrecision (of_int m) = of_int m"
  using toPrecision_exact [OF assms, of 0] by simp

theorem bulk_cost_additive_witness:
  "totalCost (the (map_of UPGRADE_DATA ''auto-scanner-2'')) 0 (1 + 1) = 1090
   \<and> totalCost (the (map_of UPGRADE_DATA ''auto-scanner-2'')) 0 (1 + 1)
       = totalCost (the (map_of UPGRADE_DATA ''auto-scanner-2'')) 0 1
         + totalCost (the (map_of UPGRADE_DATA ''auto-scanner-2'')) (0 + 1) 1"
proof -
  let ?d = "the (map_of UPGRADE_DATA ''auto-scanner-2'')"
  have b: "baseCost ?d = 500" by (simp add: UPGRADE_DATA_def)
  have g: "growth ?d = 59 / 50" by (simp add: UPGRADE_DATA_def)
  have e: "toPrecision 0 = 0" "toPrecision 1 = 1" "toPrecision 500 = 500"
    "toPrecision 590 = 590" "toPrecision 1090 = 1090"
    using toPrecision_int [of 0] toPrecision_int [of 1] toPrecision_int [of 500]
      toPrecision_int [of 590] toPrecision_int [of 1090] by simp_all
  have f: "toPrecision (59 / 50) = 59 / 50"
    using toPrecision_exact [of 118 2] by simp
  have h1: "\<forall>i<1 + 1. toPrecision (growth ?d ^ (0 + i)) = growth ?d ^ (0 + i)
               \<and> toPrecision (baseCost ?d * growth ?d ^ (0 + i))
                   = baseCost ?d * growth ?d ^ (0 + i)"
  proof (intro allI impI)
    fix i :: nat assume "i < 1 + 1"
    then have "i = 0 \<or> i = 1" by (rule less_two)
    then show "toPrecision (growth ?d ^ (0 + i)) = growth ?d ^ (0 + i)
               \<and> toPrecision (baseCost ?d * growth ?d ^ (0 + i))
                   = baseCost ?d * growth ?d ^ (0 + i)"
      unfolding b g using e f by auto
  qed
  have h2: "\<forall>k\<le>1 + 1. toPrecision (\<Sum>i<k. baseCost ?d * growth ?d ^ (0 + i))
                         = (\<Sum>i<k. baseCost ?d * growth ?d ^ (0 + i))"
  proof (intro allI impI)
    fix k :: nat assume "k \<le> 1 + 1"
    then have "k = 0 \<or> k = 1 \<or> k = 2" by (rule le_two)
    then show "toPrecision (\<Sum>i<k. baseCost ?d * growth ?d ^ (0 + i))
                         = (\<Sum>i<k. baseCost ?d * growth ?d ^ (0 + i))"
      unfolding b g using e by (auto simp: lessThan_Suc numeral_2_eq_2)
  qed
  have h3: "\<forall>k\<le>1. toPrecision (\<Sum>i<k. baseCost ?d * growth ?d ^ (0 + 1 + i))
                     = (\<Sum>i<k. baseCost ?d * growth ?d ^ (0 + 1 + i))"
  proof (intro allI impI)
    fix k :: nat assume "k \<le> 1"
    then have "k = 0 \<or> k = 1" by (rule le_one)
    then show "toPrecision (\<Sum>i<k. baseCost ?d * growth ?d ^ (0 + 1 + i))
                     = (\<Sum>i<k. baseCost ?d * growth ?d ^ (0 + 1 + i))"
      unfolding b g using e by auto
  qed
  have s: "(\<Sum>i<(1::nat) + 1. baseCost ?d * growth ?d ^ (0 + i)) = 1090"
    unfolding b g by (simp add: lessThan_Suc)
  from bulk_cost_additive [of ?d 0 0 1 1] h1 h2 h3 have
    "totalCost ?d 0 (1 + 1) = (\<Sum>i<1 + 1. baseCost ?d * growth ?d ^ (0 + i))
     \<and> totalCost ?d 0 (1 + 1) = totalCost ?d 0 1 + totalCost ?d (0 + 1) 1" by blast
  then show ?thesis unfolding s .
qed

section \<open>Purchases\<close>

lemma canBuyUpgrade_returns:
  assumes "lookupUpgrade key \<noteq> Inherited"
  shows "\<exists>ok. canBuyUpgrade st key amount = Inr ok"
  using assms
  by (cases "lookupUpgrade key") (auto simp: canBuyUpgrade_def split: option.splits)

lemma levelOf_fresh: "levelOf ((GameState_new now)\<lparr>resources := r\<rparr>) key = 0"
  by (auto simp: levelOf_def GameState_new_def reset_def split: option.splits
        dest!: map_of_SomeD)

lemma canBuyUpgrade_Entry:
  assumes "lookupUpgrade key \<noteq> Inherited" "canBuyUpgrade st key amount = Inr True"
  shows "\<exists>d. lookupUpgrade key = Entry d"
  using assms by (cases "lookupUpgrade key") (simp_all add: canBuyUpgrade_def)

lemma inherited_key:
  "lookupUpgrade ''toString'' = Inherited"
  "canBuyUpgrade st ''toString'' (Suc n) = Inl TypeError"
  "buyUpgrade st ''toString'' (Suc n) = Inl TypeError"
  "0 \<le> resources st Tokens \<Longrightarrow>
     buyUpgrade st ''toString'' 0
       = Inr (True,
              st\<lparr>resources := (resources st)(Tokens := Decimal_sub (resources st Tokens) 0),
                 stats := (stats st)\<lparr>upgradesPurchased := upgradesPurchased (stats st) + 0\<rparr>\<rparr>,
              Some ''toString'')"
proof -
  show l: "lookupUpgrade ''toString'' = Inherited"
    by (simp add: lookupUpgrade_def UPGRADE_DATA_def objectPrototypeKeys_def)
  show c: "canBuyUpgrade st ''toString'' (Suc n) = Inl TypeError"
    by (simp add: canBuyUpgrade_def l)
  show "buyUpgrade st ''toString'' (Suc n) = Inl TypeError"
    by (simp add: buyUpgrade_def c)
  show "buyUpgrade st ''toString'' 0
       = Inr (True,
              st\<lparr>resources := (resources st)(Tokens := Decimal_sub (resources st Tokens) 0),
                 stats := (stats st)\<lparr>upgradesPurchased := upgradesPurchased (stats st) + 0\<rparr>\<rparr>,
              Some ''toString'')"
    if "0 \<le> resources st Tokens"
    using that by (simp add: buyUpgrade_def canBuyUpgrade_def l)
qed

lemma small_values:
  "toPrecision 1 = 1" "toPrecision 25 = 25" "toPrecision 50 = 50"
  "toPrecision (23 / 20) = 23 / 20" "toPrecision (115 / 2) = 115 / 2"
  "toPrecision (215 / 2) = 215 / 2" "toPrecision (185 / 2) = 185 / 2"
  using toPrecision_exact [of 1 0] toPrecision_exact [of 25 0] toPrecision_exact [of 50 0]
    toPrecision_exact [of 115 2] toPrecision_exact [of 575 1] toPrecision_exact [of 1075 1]
    toPrecision_exact [of 925 1]
  by simp_all

lemma rounded_debit: "Decimal_sub (2 * 10 ^ 102) 25 = 2 * 10 ^ 102"
proof -
  have "toPrecision (of_int (2 * 10 ^ 102 - 25) * 10 powi 0)
          = of_int (2 * 10 ^ 99) * 10 powi (0 + int 3)"
    by (rule toPrecision_round) simp_all
  then show ?thesis by (simp add: Decimal_sub_def)
qed

text \<open>
  Claim C2, as stated, fails in its debit. The balance after a purchase is
  \<^verbatim>\<open>resources[costResource].sub(totalCost)\<close>, rounded to 100 significant digits like every
  result. With \<open>2 \<times> 10 ^ 102\<close> tokens, one level of \<^verbatim>\<open>token-speed\<close> costs 25, the check
  passes, the purchase returns true and raises the level, and the balance after it is the
  balance before it: nothing is debited.
\<close>

theorem buyUpgrade_atomic_counterexample:
  "totalCost (the (map_of UPGRADE_DATA ''token-speed'')) 0 1 = 25
   \<and> canBuyUpgrade ((GameState_new 0)\<lparr>resources := (\<lambda>r. 0)(Tokens := 2 * 10 ^ 102)\<rparr>)
        ''token-speed'' 1 = Inr True
   \<and> fst (projr (buyUpgrade ((GameState_new 0)\<lparr>resources := (\<lambda>r. 0)(Tokens := 2 * 10 ^ 102)\<rparr>)
        ''token-speed'' 1))
   \<and> resources (fst (snd (projr (buyUpgrade
        ((GameState_new 0)\<lparr>resources := (\<lambda>r. 0)(Tokens := 2 * 10 ^ 102)\<rparr>)
        ''token-speed'' 1)))) Tokens = 2 * 10 ^ 102"
proof -
  let ?s = "(GameState_new 0)\<lparr>resources := (\<lambda>r. 0)(Tokens := 2 * 10 ^ 102)\<rparr>"
  let ?d = "the (map_of UPGRADE_DATA ''token-speed'')"
  have lk: "lookupUpgrade ''token-speed'' = Entry ?d"
    by (simp add: lookupUpgrade_def UPGRADE_DATA_def)
  have d: "baseCost ?d = 25" "growth ?d = 5 / 4" "costResourceOf ?d = Tokens"
    "unlockThreshold ?d = None"
    by (simp_all add: UPGRADE_DATA_def costResourceOf_def)
  note l0 = levelOf_fresh
  have c1: "totalCost ?d 0 (Suc 0) = 25"
    by (simp add: totalCost_def d Decimal_add_def Decimal_mul_def Decimal_pow_def small_values)
  then have c: "totalCost ?d 0 1 = 25" by simp
  have can: "canBuyUpgrade ?s ''token-speed'' 1 = Inr True"
    by (simp add: canBuyUpgrade_def lk d l0 c1)
  have b: "buyUpgrade ?s ''token-speed'' 1 =
      Inr (True,
           ?s\<lparr>resources := (resources ?s)(Tokens := Decimal_sub (resources ?s Tokens) 25),
              upgrades := (upgrades ?s)(''token-speed'' \<mapsto> 0 + 1),
              stats := (stats ?s)\<lparr>upgradesPurchased := upgradesPurchased (stats ?s) + 1\<rparr>\<rparr>,
           None)"
    unfolding buyUpgrade_def can by (simp add: lk d l0 c1 Let_def)
  have r: "resources ?s Tokens = 2 * 10 ^ 102" by simp
  show ?thesis
    unfolding b using c can by (simp add: r rounded_debit [simplified])
qed

text \<open>
  Claim C2, amended. For every state, every key that is not the name of a property
  inherited from \<^verbatim>\<open>Object.prototype\<close>, and every quantity: the check returns without an
  exception; a purchase whose check fails returns failure and leaves the whole state, so
  every resource balance and every upgrade level, unchanged; a purchase whose check passes
  returns success, replaces the balance of the cost resource, and of no other, by the
  difference of the balance and the bulk cost rounded to 100 significant digits (the
  difference itself whenever it has at most 100 significant digits), where the bulk cost
  is the rounded sum of the loop, and raises the level of that upgrade by exactly the
  quantity, leaving every other level alone.
\<close>

theorem buyUpgrade_atomic:
  assumes "lookupUpgrade key \<noteq> Inherited"
  shows "(\<exists>ok. canBuyUpgrade st key amount = Inr ok)
   \<and> (canBuyUpgrade st key amount = Inr False
        \<longrightarrow> buyUpgrade st key amount = Inr (False, st, None))
   \<and> (canBuyUpgrade st key amount = Inr True \<longrightarrow>
        (\<exists>d st'. lookupUpgrade key = Entry d
           \<and> buyUpgrade st key amount = Inr (True, st', None)
           \<and> resources st'
               = (resources st)(costResourceOf d :=
                    Decimal_sub (resources st (costResourceOf d))
                      (totalCost d (levelOf st key) amount))
           \<and> (toPrecision (resources st (costResourceOf d) - totalCost d (levelOf st key) amount)
                 = resources st (costResourceOf d) - totalCost d (levelOf st key) amount
               \<longrightarrow> resources st' (costResourceOf d)
                     = resources st (costResourceOf d) - totalCost d (levelOf st key) amount)
           \<and> levelOf st' key = levelOf st key + amount
           \<and> (\<forall>k. k \<noteq> key \<longrightarrow> upgrades st' k = upgrades st k)))"
proof (intro conjI impI)
  show "\<exists>ok. canBuyUpgrade st key amount = Inr ok"
    using assms by (rule canBuyUpgrade_returns)
next
  assume "canBuyUpgrade st key amount = Inr False"
  then show "buyUpgrade st key amount = Inr (False, st, None)" by (simp add: buyUpgrade_def)
next
  assume can: "canBuyUpgrade st key amount = Inr True"
  with assms obtain d where d: "lookupUpgrade key = Entry d"
    using canBuyUpgrade_Entry by blast
  define st' where "st' = st\<lparr>resources := (resources st)(costResourceOf d :=
                    Decimal_sub (resources st (costResourceOf d))
                      (totalCost d (levelOf st key) amount)),
                upgrades := (upgrades st)(key \<mapsto> levelOf st key + amount),
                stats := (stats st)\<lparr>upgradesPurchased := upgradesPurchased (stats st) + amount\<rparr>\<rparr>"
  have b: "buyUpgrade st key amount = Inr (True, st', None)"
    using can d by (simp add: buyUpgrade_def Let_def st'_def)
  have r: "resources st'
               = (resources st)(costResourceOf d :=
                    Decimal_sub (resources st (costResourceOf d))
                      (totalCost d (levelOf st key) amount))"
    by (simp add: st'_def)
  have e: "toPrecision (resources st (costResourceOf d) - totalCost d (levelOf st key) amount)
                 = resources st (costResourceOf d) - totalCost d (levelOf st key) amount
               \<longrightarrow> resources st' (costResourceOf d)
                     = resources st (costResourceOf d) - totalCost d (levelOf st key) amount"
    by (simp add: r Decimal_sub_def)
  have l: "levelOf st' key = levelOf st key + amount" by (simp add: st'_def levelOf_def)
  have o: "\<forall>k. k \<noteq> key \<longrightarrow> upgrades st' k = upgrades st k" by (simp add: st'_def)
  show "\<exists>d st'. lookupUpgrade key = Entry d
           \<and> buyUpgrade st key amount = Inr (True, st', None)
           \<and> resources st'
               = (resources st)(costResourceOf d :=
                    Decimal_sub (resources st (costResourceOf d))
                      (totalCost d (levelOf st key) amount))
           \<and> (toPrecision (resources st (costResourceOf d) - totalCost d (levelOf st key) amount)
                 = resources st (costResourceOf d) - totalCost d (levelOf st key) amount
               \<longrightarrow> resources st' (costResourceOf d)
                     = resources st (costResourceOf d) - totalCost d (levelOf st key) amount)
           \<and> levelOf st' key = levelOf st key + amount
           \<and> (\<forall>k. k \<noteq> key \<longrightarrow> upgrades st' k = upgrades st k)"
    using d b r e l o by blast
qed

theorem buyUpgrade_atomic_witness:
  "lookupUpgrade ''auto-tokenizer-1'' \<noteq> Inherited
   \<and> buyUpgrade ((GameState_new 0)\<lparr>resources := (\<lambda>r. 0)(Tokens := 40)\<rparr>) ''auto-tokenizer-1'' 1
     = Inr (False, (GameState_new 0)\<lparr>resources := (\<lambda>r. 0)(Tokens := 40)\<rparr>, None)
   \<and> fst (projr (buyUpgrade ((GameState_new 0)\<lparr>resources := (\<lambda>r. 0)(Tokens := 200)\<rparr>)
         ''auto-tokenizer-1'' 2))
   \<and> resources (fst (snd (projr (buyUpgrade ((GameState_new 0)\<lparr>resources := (\<lambda>r. 0)(Tokens := 200)\<rparr>)
         ''auto-tokenizer-1'' 2)))) Tokens = 92.5
   \<and> levelOf (fst (snd (projr (buyUpgrade ((GameState_new 0)\<lparr>resources := (\<lambda>r. 0)(Tokens := 200)\<rparr>)
         ''auto-tokenizer-1'' 2)))) ''auto-tokenizer-1'' = 2"
proof -
  let ?poor = "(GameState_new 0)\<lparr>resources := (\<lambda>r. 0)(Tokens := 40)\<rparr>"
  let ?rich = "(GameState_new 0)\<lparr>resources := (\<lambda>r. 0)(Tokens := 200)\<rparr>"
  let ?d = "the (map_of UPGRADE_DATA ''auto-tokenizer-1'')"
  have lk: "lookupUpgrade ''auto-tokenizer-1'' = Entry ?d"
    by (simp add: lookupUpgrade_def UPGRADE_DATA_def)
  then have ni: "lookupUpgrade ''auto-tokenizer-1'' \<noteq> Inherited" by simp
  have d: "baseCost ?d = 50" "growth ?d = 23 / 20" "costResourceOf ?d = Tokens"
    "unlockThreshold ?d = None"
    by (simp_all add: UPGRADE_DATA_def costResourceOf_def)
  note l0 = levelOf_fresh
  have c1: "totalCost ?d 0 (Suc 0) = 50"
    by (simp add: totalCost_def d Decimal_add_def Decimal_mul_def Decimal_pow_def small_values)
  have c2: "totalCost ?d 0 2 = 215 / 2"
    by (simp add: totalCost_def d Decimal_add_def Decimal_mul_def Decimal_pow_def small_values
          numeral_2_eq_2)
  have no: "canBuyUpgrade ?poor ''auto-tokenizer-1'' 1 = Inr False"
    by (simp add: canBuyUpgrade_def lk d l0 c1)
  have yes: "canBuyUpgrade ?rich ''auto-tokenizer-1'' 2 = Inr True"
    by (simp add: canBuyUpgrade_def lk d l0 c2)
  note poor = buyUpgrade_atomic [OF ni, of ?poor 1, THEN conjunct2, THEN conjunct1, rule_format, OF no]
  note rich = buyUpgrade_atomic [OF ni, of ?rich 2, THEN conjunct2, THEN conjunct2, rule_format, OF yes]
  from rich obtain e st' where e: "lookupUpgrade ''auto-tokenizer-1'' = Entry e"
    and b: "buyUpgrade ?rich ''auto-tokenizer-1'' 2 = Inr (True, st', None)"
    and r: "resources st'
               = (resources ?rich)(costResourceOf e :=
                    Decimal_sub (resources ?rich (costResourceOf e))
                      (totalCost e (levelOf ?rich ''auto-tokenizer-1'') 2))"
    and l: "levelOf st' ''auto-tokenizer-1'' = levelOf ?rich ''auto-tokenizer-1'' + 2"
    by blast
  from e lk have ed: "e = ?d" by simp
  have "resources st' Tokens = Decimal_sub 200 (215 / 2)"
    unfolding r ed by (simp add: d l0 c2)
  then have t: "resources st' Tokens = 185 / 2"
    by (simp add: Decimal_sub_def small_values)
  have l': "levelOf st' ''auto-tokenizer-1'' = 2" using l by (simp add: l0)
  show ?thesis using ni poor t l' by (simp add: b)
qed

section \<open>Prestige\<close>



text \<open>
  Claim C4, as stated, fails: \<^verbatim>\<open>doPrestige\<close> calls \<^verbatim>\<open>resetAnalyzer(false)\<close>, and with
  \<^verbatim>\<open>keepHistory\<close> false the analyzer empties its history and rebuilds every platform's
  statistics. The state below has run one analysis before the reset; after the reset its
  history and its deployment count differ from what they were.
\<close>

theorem prestige_resets_analyzer_counterexample:
  "fst (doPrestige sqrt ((GameState_new 0)
          \<lparr>resources := (\<lambda>r. 0)(Tokens := 1000),
           performanceAnalyzer := snd (analyzeCode 5 PerformanceAnalyzer_new 100)\<rparr>))
   \<and> performanceHistory (performanceAnalyzer (snd (doPrestige sqrt ((GameState_new 0)
          \<lparr>resources := (\<lambda>r. 0)(Tokens := 1000),
           performanceAnalyzer := snd (analyzeCode 5 PerformanceAnalyzer_new 100)\<rparr>))))
       \<noteq> performanceHistory (snd (analyzeCode 5 PerformanceAnalyzer_new 100))
   \<and> totalDeployments (deploymentStats (performanceAnalyzer (snd (doPrestige sqrt ((GameState_new 0)
          \<lparr>resources := (\<lambda>r. 0)(Tokens := 1000),
           performanceAnalyzer := snd (analyzeCode 5 PerformanceAnalyzer_new 100)\<rparr>)))) development)
       \<noteq> totalDeployments (deploymentStats (snd (analyzeCode 5 PerformanceAnalyzer_new 100)) development)"
proof -
  let ?s = "(GameState_new 0)
          \<lparr>resources := (\<lambda>r. 0)(Tokens := 1000),
           performanceAnalyzer := snd (analyzeCode 5 PerformanceAnalyzer_new 100)\<rparr>"
  have g: "calculatePrestigeGain sqrt ?s = 1" by (simp add: calculatePrestigeGain_def)
  have d: "doPrestige sqrt ?s = (True,
         ?s\<lparr>resources := (resources ?s)
               (CompilerPoints := resources ?s CompilerPoints + 1,
                Tokens := 0, AstNodes := 0, GeneratedCode := 0, OptimizedCode := 0),
            prestige := \<lparr>level = level (prestige ?s) + 1,
                         totalResets = totalResets (prestige ?s) + 1\<rparr>,
            upgrades := (\<lambda>key. case upgrades ?s key of Some l \<Rightarrow> Some 0 | None \<Rightarrow> None),
            codeGenerator := resetStats (codeGenerator ?s),
            codeOptimizer := resetOptimizer (codeOptimizer ?s) True,
            performanceAnalyzer := resetAnalyzer (performanceAnalyzer ?s) False\<rparr>)"
    unfolding doPrestige_def Let_def g by simp
  show ?thesis
    unfolding d
    by (simp add: resetAnalyzer_def analyzeCode_def recordPerformance_def
          updateDeploymentStats_def updateDetailedMetrics_def PerformanceAnalyzer_new_def
          initialDeploymentStat_def Let_def)
qed

text \<open>
  Claim C4, amended. After a prestige reset that succeeds, the performance analyzer's
  current platform is the default \<open>development\<close>, its performance history is empty, and
  the statistics of every platform (deployment count, cumulative, best and average score)
  are back to zero.
\<close>

theorem prestige_resets_analyzer:
  assumes "fst (doPrestige powHalf st)"
  shows "currentPlatform (performanceAnalyzer (snd (doPrestige powHalf st))) = development
       \<and> performanceHistory (performanceAnalyzer (snd (doPrestige powHalf st))) = []
       \<and> (\<forall>p. deploymentStats (performanceAnalyzer (snd (doPrestige powHalf st))) p
                = \<lparr>totalDeployments = 0, cumulativeScore = 0, bestScore = 0, averageScore = 0\<rparr>)"
proof -
  from assms have g: "\<not> calculatePrestigeGain powHalf st \<le> 0"
    by (auto simp: doPrestige_def Let_def split: if_splits)
  then show ?thesis
    by (simp add: doPrestige_def Let_def resetAnalyzer_def initialDeploymentStat_def)
qed

theorem prestige_resets_analyzer_witness:
  "fst (doPrestige sqrt ((GameState_new 0)
          \<lparr>resources := (\<lambda>r. 0)(Tokens := 1000),
           performanceAnalyzer := snd (analyzeCode 5 PerformanceAnalyzer_new 100)\<rparr>))
   \<and> performanceHistory (performanceAnalyzer (snd (doPrestige sqrt ((GameState_new 0)
          \<lparr>resources := (\<lambda>r. 0)(Tokens := 1000),
           performanceAnalyzer := snd (analyzeCode 5 PerformanceAnalyzer_new 100)\<rparr>)))) = []
   \<and> totalDeployments (deploymentStats (performanceAnalyzer (snd (doPrestige sqrt ((GameState_new 0)
          \<lparr>resources := (\<lambda>r. 0)(Tokens := 1000),
           performanceAnalyzer := snd (analyzeCode 5 PerformanceAnalyzer_new 100)\<rparr>)))) development) = 0"
proof -
  let ?s = "(GameState_new 0)
          \<lparr>resources := (\<lambda>r. 0)(Tokens := 1000),
           performanceAnalyzer := snd (analyzeCode 5 PerformanceAnalyzer_new 100)\<rparr>"
  have g: "calculatePrestigeGain sqrt ?s = 1" by (simp add: calculatePrestigeGain_def)
  have ok: "fst (doPrestige sqrt ?s)" by (simp add: doPrestige_def g Let_def)
  from prestige_resets_analyzer[OF ok] ok show ?thesis by simp
qed

section \<open>Converter consumption\<close>





section \<open>Production is not a pure query\<close>

lemma forEach_Inr:
  "(\<And>x s. x \<in> set xs \<Longrightarrow> \<exists>s'. f x s = Inr s') \<Longrightarrow> \<exists>s'. forEach f xs s = Inr s'"
proof (induction xs arbitrary: s)
  case Nil
  show ?case by simp
next
  case (Cons x xs)
  from Cons.prems[of x s] obtain s1 where s1: "f x s = Inr s1" by auto
  from Cons.IH[of s1] Cons.prems obtain s2 where "forEach f xs s1 = Inr s2" by auto
  with s1 show ?case by simp
qed

lemma generatorStep_Inr:
  "x \<in> set UPGRADE_DATA \<Longrightarrow> \<exists>p'. generatorStep pus st x p = Inr p'"
  by (auto simp: UPGRADE_DATA_def generatorStep_def productionAdd_def Let_def)

lemma converterStep_Inr:
  "x \<in> set UPGRADE_DATA \<Longrightarrow> \<exists>p'. converterStep st x p = Inr p'"
  by (auto simp: UPGRADE_DATA_def converterStep_def productionAdd_def Let_def)

lemma generatorStep_cong:
  "upgrades st1 = upgrades st \<Longrightarrow> prestige st1 = prestige st
   \<Longrightarrow> generatorStep pus st1 = generatorStep pus st"
  by (rule ext, rule ext) (simp add: generatorStep_def levelOf_def getPrestigeMultiplier_def Let_def)

lemma converterStep_cong:
  "upgrades st1 = upgrades st \<Longrightarrow> resources st1 = resources st
   \<Longrightarrow> converterStep st1 = converterStep st"
  by (rule ext, rule ext) (simp add: converterStep_def levelOf_def Let_def split: option.splits)

lemma efficiency_pos: "0 < efficiency (templates t)"
  by (cases t) simp_all

lemma generateCode_amount:
  "0 < a \<Longrightarrow> fst (generateCode g a)
     = a * efficiency (templates (currentTemplate g)) * (1 + real (optimizationLevel g) * 0.1)
         * (1 + totalGenerated (generationStats g) / 10000 * 0.05)"
  by (simp add: generateCode_def Let_def)

lemma generateCode_state:
  "0 < a \<Longrightarrow>
     totalGenerated (generationStats (snd (generateCode g a)))
       = totalGenerated (generationStats g) + fst (generateCode g a)
     \<and> currentTemplate (snd (generateCode g a)) = currentTemplate g
     \<and> optimizationLevel (snd (generateCode g a)) = optimizationLevel g"
  by (simp add: generateCode_def Let_def updateAverageEfficiency_def)

lemma generateCode_pos:
  assumes "0 < a" "0 \<le> totalGenerated (generationStats g)"
  shows "0 < fst (generateCode g a)"
proof -
  have 1: "0 < a * efficiency (templates (currentTemplate g))"
    using assms(1) efficiency_pos by simp
  have 2: "0 < 1 + real (optimizationLevel g) * 0.1" 
    by (simp add: add_pos_nonneg)
  have 3: "0 < 1 + totalGenerated (generationStats g) / 10000 * 0.05"
    using assms(2) by (simp add: add_pos_nonneg)
  show ?thesis
    unfolding generateCode_amount[OF assms(1)] by (rule mult_pos_pos[OF mult_pos_pos[OF 1 2] 3])
qed

lemma generateCode_grows:
  assumes "0 < a" "0 \<le> totalGenerated (generationStats g)"
  shows "fst (generateCode g a) < fst (generateCode (snd (generateCode g a)) a)"
proof -
  let ?c = "a * efficiency (templates (currentTemplate g)) * (1 + real (optimizationLevel g) * 0.1)"
  let ?T = "totalGenerated (generationStats g)"
  let ?g1 = "fst (generateCode g a)"
  have c1: "0 < a * efficiency (templates (currentTemplate g))"
    using assms(1) efficiency_pos by simp
  have c2: "0 < 1 + real (optimizationLevel g) * 0.1" 
    by (simp add: add_pos_nonneg)
  have c: "0 < ?c" by (rule mult_pos_pos[OF c1 c2])
  have p: "0 < ?g1" by (rule generateCode_pos[OF assms])
  have 1: "?g1 = ?c * (1 + ?T / 10000 * 0.05)" by (rule generateCode_amount[OF assms(1)])
  have 2: "fst (generateCode (snd (generateCode g a)) a) = ?c * (1 + (?T + ?g1) / 10000 * 0.05)"
    unfolding generateCode_amount[OF assms(1), of "snd (generateCode g a)"]
    using generateCode_state[OF assms(1), of g] by simp
  have "1 + ?T / 10000 * 0.05 < 1 + (?T + ?g1) / 10000 * 0.05" using p by simp
  then have "?c * (1 + ?T / 10000 * 0.05) < ?c * (1 + (?T + ?g1) / 10000 * 0.05)"
    using c by (rule mult_strict_left_mono)
  then show ?thesis using 1 2 by simp
qed

lemma stage3_fst:
  "0 < resources st AstNodes \<Longrightarrow>
   fst (calculateStage3Production now st p) GeneratedCode
     = p GeneratedCode + fst (generateCode (codeGenerator st) (resources st AstNodes))"
  by (simp add: calculateStage3Production_def Let_def split_beta)

lemma stage3_snd:
  "0 < resources st AstNodes \<Longrightarrow>
   codeGenerator (snd (calculateStage3Production now st p))
     = snd (generateCode (codeGenerator st) (resources st AstNodes))
   \<and> resources (snd (calculateStage3Production now st p)) = resources st
   \<and> upgrades (snd (calculateStage3Production now st p)) = upgrades st
   \<and> prestige (snd (calculateStage3Production now st p)) = prestige st
   \<and> stage3 (snd (calculateStage3Production now st p)) = stage3 st"
  by (simp add: calculateStage3Production_def Let_def split_beta)

text \<open>
  Claim C10. When stage 3 is unlocked and the astNodes balance is positive, a call of
  \<^verbatim>\<open>calculateProduction\<close> returns without error and raises the code generator's cumulative
  total, while resources, upgrade levels, prestige and stage-3 flags stay as they were; a
  second call on the state the first one left returns a generatedCode production strictly
  larger than the first. The cumulative total is taken not to be negative, as it is in
  every state the generator can reach (it starts at 0 and only grows by positive amounts).
\<close>

theorem calculateProduction_not_pure:
  assumes u: "unlocked (stage3 st)"
      and a: "0 < resources st AstNodes"
      and t: "0 \<le> totalGenerated (generationStats (codeGenerator st))"
  shows "\<exists>p1 st1 p2 st2.
           calculateProduction now pus st = Inr (p1, st1)
         \<and> calculateProduction now' pus st1 = Inr (p2, st2)
         \<and> resources st1 = resources st \<and> upgrades st1 = upgrades st
         \<and> prestige st1 = prestige st \<and> stage3 st1 = stage3 st
         \<and> totalGenerated (generationStats (codeGenerator st))
             < totalGenerated (generationStats (codeGenerator st1))
         \<and> p1 GeneratedCode < p2 GeneratedCode"
proof -
  obtain q1 where q1: "forEach (generatorStep pus st) UPGRADE_DATA (\<lambda>r. 0) = Inr q1"
    using forEach_Inr[of UPGRADE_DATA "generatorStep pus st"] generatorStep_Inr by blast
  obtain q2 where q2: "forEach (converterStep st) UPGRADE_DATA q1 = Inr q2"
    using forEach_Inr[of UPGRADE_DATA "converterStep st"] converterStep_Inr by blast
  let ?r1 = "calculateStage3Production now st q2"
  let ?st1 = "snd ?r1"
  let ?r2 = "calculateStage3Production now' ?st1 q2"
  have c1: "calculateProduction now pus st = Inr (fst ?r1, ?st1)"
    by (simp add: calculateProduction_def q1 q2 u)
  note s = stage3_snd[OF a, of now q2]
  have a1: "0 < resources ?st1 AstNodes" using s a by simp
  have c2: "calculateProduction now' pus ?st1 = Inr (fst ?r2, snd ?r2)"
    using s u q1 q2
    by (simp add: calculateProduction_def generatorStep_cong[of ?st1 st] converterStep_cong[of ?st1 st])
  let ?g = "codeGenerator st" and ?n = "resources st AstNodes"
  have grow: "fst (generateCode ?g ?n) < fst (generateCode (snd (generateCode ?g ?n)) ?n)"
    by (rule generateCode_grows[OF a t])
  have lt: "fst ?r1 GeneratedCode < fst ?r2 GeneratedCode"
    unfolding stage3_fst[OF a] stage3_fst[OF a1] using s grow by simp
  have tg: "totalGenerated (generationStats ?g) < totalGenerated (generationStats (codeGenerator ?st1))"
    using s generateCode_state[OF a, of ?g] generateCode_pos[OF a t] by simp
  show ?thesis
    using c1 c2 s lt tg by blast
qed

theorem calculateProduction_not_pure_witness:
  "\<exists>p1 st1 p2 st2.
      calculateProduction 0 PRESTIGE_UPGRADES
        ((GameState_new 0)\<lparr>resources := (\<lambda>r. 0)(AstNodes := 1000),
                           stage3 := (stage3 (GameState_new 0))\<lparr>unlocked := True\<rparr>\<rparr>) = Inr (p1, st1)
    \<and> calculateProduction 1 PRESTIGE_UPGRADES st1 = Inr (p2, st2)
    \<and> p1 GeneratedCode < p2 GeneratedCode"
proof -
  let ?s = "(GameState_new 0)\<lparr>resources := (\<lambda>r. 0)(AstNodes := 1000),
                           stage3 := (stage3 (GameState_new 0))\<lparr>unlocked := True\<rparr>\<rparr>"
  have u: "unlocked (stage3 ?s)" by simp
  have a: "0 < resources ?s AstNodes" by simp
  have t: "0 \<le> totalGenerated (generationStats (codeGenerator ?s))"
    by (simp add: GameState_new_def reset_def CodeGenerator_new_def)
  from calculateProduction_not_pure[OF u a t, of 0 PRESTIGE_UPGRADES 1] show ?thesis by blast
qed

section \<open>Saving and loading\<close>

lemma newDecimal_toString: "newDecimal (toString d) = d"
  by (simp add: toString_def)

text \<open>
  Claim C8, as stated, fails: the save data has no entry for the performance analyzer (nor
  for the code generator, the play statistics or the last save time). A state that has run
  one analysis is saved to the same data as the new game, and loading that data into a
  newly constructed engine gives a state with no deployment where the saved one had one.
\<close>

theorem save_load_roundtrip_counterexample:
  "save 1 PRESTIGE_UPGRADES
       ((GameState_new 0)\<lparr>performanceAnalyzer := snd (analyzeCode 5 PerformanceAnalyzer_new 100)\<rparr>)
     = save 1 PRESTIGE_UPGRADES (GameState_new 0)
   \<and> snd (snd (load 2 (Some (save 1 PRESTIGE_UPGRADES
       ((GameState_new 0)\<lparr>performanceAnalyzer := snd (analyzeCode 5 PerformanceAnalyzer_new 100)\<rparr>)))
         (PRESTIGE_UPGRADES, GameState_new 0)))
     \<noteq> (GameState_new 0)\<lparr>performanceAnalyzer := snd (analyzeCode 5 PerformanceAnalyzer_new 100)\<rparr>
   \<and> totalDeployments (deploymentStats (performanceAnalyzer (snd (snd (load 2 (Some (save 1 PRESTIGE_UPGRADES
       ((GameState_new 0)\<lparr>performanceAnalyzer := snd (analyzeCode 5 PerformanceAnalyzer_new 100)\<rparr>)))
         (PRESTIGE_UPGRADES, GameState_new 0))))) development) = 0
   \<and> totalDeployments (deploymentStats (performanceAnalyzer
       ((GameState_new 0)\<lparr>performanceAnalyzer := snd (analyzeCode 5 PerformanceAnalyzer_new 100)\<rparr>))
          development) = 1"
proof -
  let ?a = "snd (analyzeCode 5 PerformanceAnalyzer_new 100)"
  let ?s = "(GameState_new 0)\<lparr>performanceAnalyzer := ?a\<rparr>"
  let ?l = "snd (snd (load 2 (Some (save 1 PRESTIGE_UPGRADES ?s)) (PRESTIGE_UPGRADES, GameState_new 0)))"
  have sv: "save 1 PRESTIGE_UPGRADES ?s = save 1 PRESTIGE_UPGRADES (GameState_new 0)"
    by (simp add: save_def)
  have pa: "performanceAnalyzer ?l = PerformanceAnalyzer_new"
    by (simp add: load_def save_def loadSettings_def loadStage3_def loadPrestige_def
          loadUpgrades_def loadResources_def Let_def GameState_new_def reset_def)
  have t0: "totalDeployments (deploymentStats (performanceAnalyzer ?l) development) = 0"
    unfolding pa by (simp add: PerformanceAnalyzer_new_def initialDeploymentStat_def)
  have t1: "totalDeployments (deploymentStats (performanceAnalyzer ?s) development) = 1"
    by (simp add: analyzeCode_def recordPerformance_def updateDeploymentStats_def
          updateDetailedMetrics_def PerformanceAnalyzer_new_def initialDeploymentStat_def Let_def)
  have ne: "?l \<noteq> ?s"
  proof
    assume "?l = ?s"
    then have "totalDeployments (deploymentStats (performanceAnalyzer ?l) development)
                = totalDeployments (deploymentStats (performanceAnalyzer ?s) development)"
      by simp
    with t0 t1 show False by simp
  qed
  show ?thesis using sv ne t0 t1 by blast
qed

text \<open>
  Claim C8, amended. Loading what \<^verbatim>\<open>save\<close> wrote into a newly constructed engine succeeds
  and reproduces every resource Decimal exactly, every upgrade level, the prestige level
  and reset count, the level, cost and unlocked flag of each prestige upgrade, the stage-3
  flag, performance score and the optimisation entries kept in the stage-3 record, the
  developer-mode flag, and the deployment name, buy amount and start time when they are
  not empty or zero (an empty name is read as \<open>development\<close>, a zero buy amount as 1, a
  zero start time as the time of loading). The performance analyzer, the code generator,
  the play statistics and the last save time are not in the save data: after the load
  they are those of the new engine.
\<close>

theorem save_load_roundtrip:
  fixes s :: gameState and pus :: "(string \<times> prestigeUpgrade) list" and now now' t :: nat
  defines "r \<equiv> load now' (Some (save now pus s)) (PRESTIGE_UPGRADES, GameState_new t)"
  shows "fst r
       \<and> resources (snd (snd r)) = resources s
       \<and> (\<forall>key. levelOf (snd (snd r)) key = levelOf s key)
       \<and> (\<forall>key l. upgrades s key = Some l \<longrightarrow> upgrades (snd (snd r)) key = Some l)
       \<and> prestige (snd (snd r)) = prestige s
       \<and> fst (snd r) = map (\<lambda>(key, upgrade).
                 case map_of pus key of
                   None \<Rightarrow> (key, upgrade)
                 | Some saved \<Rightarrow>
                     (key, upgrade\<lparr>pu_level := pu_level saved, pu_cost := pu_cost saved,
                                   pu_unlocked := pu_unlocked saved\<rparr>)) PRESTIGE_UPGRADES
       \<and> unlocked (stage3 (snd (snd r))) = unlocked (stage3 s)
       \<and> performanceScore (stage3 (snd (snd r))) = performanceScore (stage3 s)
       \<and> stage3_optimizations (stage3 (snd (snd r))) = stage3_optimizations (stage3 s)
       \<and> currentDeployment (stage3 (snd (snd r)))
           = (if currentDeployment (stage3 s) = [] then ''development''
              else currentDeployment (stage3 s))
       \<and> buyAmount (snd (snd r)) = (if buyAmount s = 0 then 1 else buyAmount s)
       \<and> devMode (snd (snd r)) = devMode s
       \<and> startTime (snd (snd r)) = (if startTime s = 0 then now' else startTime s)
       \<and> performanceAnalyzer (snd (snd r)) = PerformanceAnalyzer_new
       \<and> codeGenerator (snd (snd r)) = CodeGenerator_new
       \<and> stats (snd (snd r)) = stats (GameState_new t)
       \<and> lastSaveTime (snd (snd r)) = t"
proof -
  have r: "r = (True,
      (case sd_prestige (save now pus s) of None \<Rightarrow> PRESTIGE_UPGRADES
        | Some pr \<Rightarrow> loadPrestigeUpgrades pr PRESTIGE_UPGRADES),
      loadSettings now' (save now pus s) (loadStage3 (save now pus s)
        (loadPrestige (save now pus s) (loadUpgrades (save now pus s)
           (loadResources (save now pus s) (GameState_new t))))))"
    by (simp add: r_def load_def Let_def)
  have pu: "fst (snd r) = map (\<lambda>(key, upgrade).
                 case map_of pus key of
                   None \<Rightarrow> (key, upgrade)
                 | Some saved \<Rightarrow>
                     (key, upgrade\<lparr>pu_level := pu_level saved, pu_cost := pu_cost saved,
                                   pu_unlocked := pu_unlocked saved\<rparr>)) PRESTIGE_UPGRADES"
    unfolding r
    by (auto simp add: save_def loadPrestigeUpgrades_def map_of_map orNumber_def
          newDecimal_toString split: option.splits)
  have up: "upgrades (snd (snd r)) = (\<lambda>key. case upgrades s key of Some l \<Rightarrow> Some l
                                         | None \<Rightarrow> upgrades (GameState_new t) key)"
    unfolding r
    by (auto simp add: save_def loadSettings_def loadStage3_def loadPrestige_def
          loadUpgrades_def loadResources_def orNumber_def fun_eq_iff split: option.splits)
  have fresh: "\<And>key l. upgrades (GameState_new t) key = Some l \<Longrightarrow> l = 0"
    by (auto simp: GameState_new_def reset_def UPGRADE_DATA_def split: if_splits)
  have lv: "\<forall>key. levelOf (snd (snd r)) key = levelOf s key"
    using fresh by (auto simp: levelOf_def up split: option.splits)
  have rest: "fst r
       \<and> resources (snd (snd r)) = resources s
       \<and> prestige (snd (snd r)) = prestige s
       \<and> unlocked (stage3 (snd (snd r))) = unlocked (stage3 s)
       \<and> performanceScore (stage3 (snd (snd r))) = performanceScore (stage3 s)
       \<and> stage3_optimizations (stage3 (snd (snd r))) = stage3_optimizations (stage3 s)
       \<and> currentDeployment (stage3 (snd (snd r)))
           = (if currentDeployment (stage3 s) = [] then ''development''
              else currentDeployment (stage3 s))
       \<and> buyAmount (snd (snd r)) = (if buyAmount s = 0 then 1 else buyAmount s)
       \<and> devMode (snd (snd r)) = devMode s
       \<and> startTime (snd (snd r)) = (if startTime s = 0 then now' else startTime s)"
    unfolding r
    by (auto simp add: save_def loadSettings_def loadStage3_def loadPrestige_def
          loadUpgrades_def loadResources_def orNumber_def orString_def newDecimal_toString
          GameState_new_def reset_def fun_eq_iff split: option.splits)
  have frame: "performanceAnalyzer (snd (snd r)) = PerformanceAnalyzer_new
       \<and> codeGenerator (snd (snd r)) = CodeGenerator_new
       \<and> stats (snd (snd r)) = stats (GameState_new t)
       \<and> lastSaveTime (snd (snd r)) = t"
    unfolding r
    by (simp add: save_def loadSettings_def loadStage3_def loadPrestige_def
          loadUpgrades_def loadResources_def GameState_new_def reset_def)
  show ?thesis using pu lv rest frame by (simp add: up)
qed

theorem save_load_roundtrip_witness:
  "upgrades ((GameState_new 0)\<lparr>resources := (\<lambda>r. 0)(Tokens := 12.5),
                  upgrades := (upgrades (GameState_new 0))(''token-speed'' \<mapsto> 2)\<rparr>)
      ''token-speed'' = Some 2
   \<and> upgrades (snd (snd (load 9 (Some (save 8 PRESTIGE_UPGRADES
        ((GameState_new 0)\<lparr>resources := (\<lambda>r. 0)(Tokens := 12.5),
                  upgrades := (upgrades (GameState_new 0))(''token-speed'' \<mapsto> 2)\<rparr>)))
        (PRESTIGE_UPGRADES, GameState_new 7)))) ''token-speed'' = Some 2
   \<and> resources (snd (snd (load 9 (Some (save 8 PRESTIGE_UPGRADES
        ((GameState_new 0)\<lparr>resources := (\<lambda>r. 0)(Tokens := 12.5),
                  upgrades := (upgrades (GameState_new 0))(''token-speed'' \<mapsto> 2)\<rparr>)))
        (PRESTIGE_UPGRADES, GameState_new 7)))) Tokens = 12.5"
proof -
  let ?s = "(GameState_new 0)\<lparr>resources := (\<lambda>r. 0)(Tokens := 12.5),
                  upgrades := (upgrades (GameState_new 0))(''token-speed'' \<mapsto> 2)\<rparr>"
  have u: "upgrades ?s ''token-speed'' = Some 2" by simp
  note r = save_load_roundtrip[of 9 8 PRESTIGE_UPGRADES ?s 7]
  from r u have 1: "upgrades (snd (snd (load 9 (Some (save 8 PRESTIGE_UPGRADES ?s))
        (PRESTIGE_UPGRADES, GameState_new 7)))) ''token-speed'' = Some 2" by blast
  from r have "resources (snd (snd (load 9 (Some (save 8 PRESTIGE_UPGRADES ?s))
        (PRESTIGE_UPGRADES, GameState_new 7)))) = resources ?s" by blast
  then have 2: "resources (snd (snd (load 9 (Some (save 8 PRESTIGE_UPGRADES ?s))
        (PRESTIGE_UPGRADES, GameState_new 7)))) Tokens = 12.5" by simp
  show ?thesis using u 1 2 by blast
qed

section \<open>The tokenizer terminates and covers its input\<close>













text \<open>
  Claim C7 does not hold of the code for the operators \<^verbatim>\<open>===\<close> and \<^verbatim>\<open>!==\<close>: the alternation
  lists \<^verbatim>\<open>==\<close> and \<^verbatim>\<open>!=\<close> before them, and the first alternative that matches wins, so each
  is emitted as two tokens. \<^verbatim>\<open>=>\<close>, listed before \<^verbatim>\<open>=\<close>, is one token.
\<close>

theorem tokenize_strict_equality_split:
  "tokenize (str ''==='')
     = Some [\<lparr>tok_type = OPERATOR, tok_value = str ''=='', tok_position = 0, tok_line = 1,
               tok_column = 1\<rparr>,
             \<lparr>tok_type = OPERATOR, tok_value = str ''='', tok_position = 2, tok_line = 1,
               tok_column = 3\<rparr>]
   \<and> tokenize (str ''!=='')
     = Some [\<lparr>tok_type = OPERATOR, tok_value = str ''!='', tok_position = 0, tok_line = 1,
               tok_column = 1\<rparr>,
             \<lparr>tok_type = OPERATOR, tok_value = str ''='', tok_position = 2, tok_line = 1,
               tok_column = 3\<rparr>]
   \<and> tokenize (str ''=>'')
     = Some [\<lparr>tok_type = OPERATOR, tok_value = str ''=>'', tok_position = 0, tok_line = 1,
               tok_column = 1\<rparr>]"
  by code_simp

end
